theory Spec2Isabelle
  imports Complex_Main "HOL-Library.Word"
begin

section \<open>Numbers, vectors and blobs\<close>

text \<open>
  A JavaScript \<open>number\<close> is modelled as a real: finite values with exact arithmetic.
  Rounding, the infinities and NaN are outside this number model; where the source
  tests a number for truthiness (\<open>x || d\<close>) the model tests \<open>x = 0\<close>, and where
  \<open>Math.sqrt\<close> of a negative number would give NaN (which is falsy) the model takes
  the fallback branch.

  A \<open>Float32Array\<close> is a list of 32-bit words (the IEEE-754 bit patterns), a
  \<open>Buffer\<close> or BLOB a list of bytes.
\<close>

text \<open>
  The one place where NaN is part of the model is a number handed to the database as
  the value of a REAL column: \<open>js_number\<close> is such an argument, a real or NaN, and
  \<open>bind_number\<close> is the column value the driver stores for it. A NaN is stored as
  NULL (\<open>None\<close>), any other number as itself.
\<close>

datatype js_number = Number real | NaN

fun bind_number :: "js_number \<Rightarrow> real option" where
  "bind_number (Number x) = Some x"
| "bind_number NaN = None"

type_synonym float32array = "32 word list"
type_synonym blob = "8 word list"

text \<open>\<open>vecBuf\<close>: the bytes of the array's buffer, four per element (little-endian host).\<close>

definition f32_bytes :: "32 word \<Rightarrow> blob" where
  "f32_bytes w = [ucast w, ucast (drop_bit 8 w), ucast (drop_bit 16 w), ucast (drop_bit 24 w)]"

definition vecBuf :: "float32array \<Rightarrow> blob" where
  "vecBuf vec = concat (map f32_bytes vec)"

section \<open>Scoring (scoring.ts)\<close>

record TaskBaseline =
  count :: nat
  meanTokens :: real
  meanErrors :: real
  meanUserCorrections :: real
  m2Tokens :: real
  m2Errors :: real
  m2UserCorrections :: real

definition updateBaseline :: "TaskBaseline \<Rightarrow> real \<Rightarrow> real \<Rightarrow> real \<Rightarrow> TaskBaseline" where
  "updateBaseline b tokens errs userCorr =
     (let n = count b + 1;
          dTokens = tokens - meanTokens b;
          dErrors = errs - meanErrors b;
          dUserCorr = userCorr - meanUserCorrections b;
          meanTokens' = meanTokens b + dTokens / real n;
          meanErrors' = meanErrors b + dErrors / real n;
          meanUserCorrections' = meanUserCorrections b + dUserCorr / real n
      in \<lparr> count = n,
           meanTokens = meanTokens',
           meanErrors = meanErrors',
           meanUserCorrections = meanUserCorrections',
           m2Tokens = m2Tokens b + dTokens * (tokens - meanTokens'),
           m2Errors = m2Errors b + dErrors * (errs - meanErrors'),
           m2UserCorrections = m2UserCorrections b + dUserCorr * (userCorr - meanUserCorrections') \<rparr>)"

text \<open>
  \<open>stddev\<close>: \<open>if (count < 2) return 1; return Math.sqrt(m2 / (count - 1)) || 1\<close>.
  The \<open>|| 1\<close> replaces a root that is 0 (and the NaN of a negative quotient) by 1.
\<close>

definition stddev :: "real \<Rightarrow> nat \<Rightarrow> real" where
  "stddev m2 cnt =
     (if cnt < 2 then 1
      else let q = m2 / real (cnt - 1)
           in if q < 0 then 1
              else if sqrt q = 0 then 1 else sqrt q)"

definition computeTaskScore :: "TaskBaseline \<Rightarrow> real \<Rightarrow> real \<Rightarrow> real \<Rightarrow> bool \<Rightarrow> real" where
  "computeTaskScore b tokens errs userCorr compl =
     (let completedSignal = (if compl then 1 else - 1)
      in if count b < 10 then
           (let tokenDelta = (if count b > 0
                              then (meanTokens b - tokens) / max (meanTokens b) 1 else 0);
                errorDelta = (if count b > 0
                              then (meanErrors b - errs) / max (meanErrors b) 1 else 0)
            in tokenDelta + errorDelta - userCorr * 0.5 + completedSignal)
         else
           (let zTokens = (tokens - meanTokens b) / stddev (m2Tokens b) (count b);
                zErrors = (errs - meanErrors b) / stddev (m2Errors b) (count b);
                zUserCorr = (userCorr - meanUserCorrections b)
                              / stddev (m2UserCorrections b) (count b)
            in - zTokens - zErrors - zUserCorr + completedSignal))"

definition computeCredit :: "real \<Rightarrow> real \<Rightarrow> real \<Rightarrow> real" where
  "computeCredit taskScore selfReportScore numMemoriesRetrieved =
     taskScore * (selfReportScore / 3.0) * (1.0 / max numMemoriesRetrieved 1)"

definition updateWeight :: "real \<Rightarrow> real \<Rightarrow> real \<Rightarrow> real" where
  "updateWeight oldWeight credit lr =
     (let raw = (1 - lr) * oldWeight + lr * credit
      in max 0.1 (min 5.0 raw))"

text \<open>
  \<open>initialWeight\<close>: the category and source are strings at run time; the optional
  arguments are \<open>None\<close> when omitted. \<open>avgTokensPerTask || 10000\<close> and
  \<open>tokensWasted || 0\<close> replace a missing or zero argument.
\<close>

definition or_default :: "real option \<Rightarrow> real \<Rightarrow> real" where
  "or_default x d = (case x of None \<Rightarrow> d | Some v \<Rightarrow> if v = 0 then d else v)"

definition initialWeight :: "string \<Rightarrow> string option \<Rightarrow> real option \<Rightarrow> real option \<Rightarrow> real" where
  "initialWeight category source tokensWasted' avgTokensPerTask =
     (if category = ''correction'' then
        (let avg = or_default avgTokensPerTask 10000;
             cost = or_default tokensWasted' 0
         in 1.0 + cost / avg)
      else if category = ''user'' then
        (if source = Some ''user_denial'' then 2.0
         else if source = Some ''user_correction'' then 2.5
         else if source = Some ''user_input'' then 2.0
         else 2.0)
      else if category = ''insight'' then 1.0
      else if category = ''consolidated'' then 1.0
      else 1.0)"

definition emptyBaseline :: TaskBaseline where
  "emptyBaseline = \<lparr> count = 0, meanTokens = 0, meanErrors = 0, meanUserCorrections = 0,
                     m2Tokens = 0, m2Errors = 0, m2UserCorrections = 0 \<rparr>"

section \<open>The database (SCHEMA in store.ts)\<close>

text \<open>
  Each table is the list of its rows in storage order. The type of the weight column
  is a parameter of the row: the operations that do arithmetic on weights are modelled
  over tables whose weights are all numbers (type \<open>real\<close>); \<open>insertRawMemory\<close>, which
  can store NULL, over a table with the nullable column (type \<open>real option\<close>).
  The \<open>meta\<close> table maps a key to its value; the only key the store uses is
  \<open>baseline\<close>, whose value is the JSON text of a baseline, taken here as the
  baseline it denotes (\<open>JSON.parse\<close> after \<open>JSON.stringify\<close> is the identity).
\<close>

record 'w memory_row =
  m_id :: string
  m_content :: string
  m_embedding :: "blob option"
  m_category :: string
  m_weight :: 'w
  m_initial_cost :: real
  m_created_at :: int
  m_last_retrieved :: "int option"
  m_retrieval_count :: int
  m_source_task :: "string option"

record task_row =
  t_id :: string
  t_description :: string
  t_embedding :: blob
  t_tokens_used :: "real option"
  t_tool_calls :: "real option"
  t_errors :: "real option"
  t_user_corrections :: "real option"
  t_completed :: "int option"
  t_task_score :: "real option"
  t_started_at :: int
  t_finished_at :: "int option"

record retrieval_row =
  r_memory_id :: string
  r_task_id :: string
  r_similarity :: real
  r_self_report :: "real option"
  r_credit :: "real option"

record 'w database =
  memories :: "'w memory_row list"
  tasks :: "task_row list"
  memory_retrievals :: "retrieval_row list"
  meta :: "string \<rightharpoonup> TaskBaseline"

definition empty_database :: "'w database" where
  "empty_database = \<lparr> memories = [], tasks = [], memory_retrievals = [], meta = Map.empty \<rparr>"

datatype error = EmbedFailure | ConstraintViolation | EngineError

text \<open>\<open>SELECT ... FROM memories WHERE id = ?\<close> with \<open>.get()\<close>: the first matching row.\<close>

definition get_memory :: "'w database \<Rightarrow> string \<Rightarrow> 'w memory_row option" where
  "get_memory d i = find (\<lambda>m. m_id m = i) (memories d)"

text \<open>An INSERT fails on a row whose PRIMARY KEY is already present.\<close>

definition insert_memory :: "'w memory_row \<Rightarrow> 'w database \<Rightarrow> error + 'w database" where
  "insert_memory row d =
     (if m_id row \<in> set (map m_id (memories d)) then Inl ConstraintViolation
      else Inr (d\<lparr>memories := memories d @ [row]\<rparr>))"

definition insert_task :: "task_row \<Rightarrow> 'w database \<Rightarrow> error + 'w database" where
  "insert_task row d =
     (if t_id row \<in> set (map t_id (tasks d)) then Inl ConstraintViolation
      else Inr (d\<lparr>tasks := tasks d @ [row]\<rparr>))"

section \<open>The store (class MemoryStore)\<close>

datatype VectorType = vector32 | vector64 | vector8 | vector1

record MemelordConfig =
  cfg_sessionId :: string
  cfg_embed :: "string \<Rightarrow> error + float32array"
  cfg_vectorType :: "VectorType option"
  cfg_dimensions :: "nat option"
  cfg_topK :: "int option"
  cfg_learningRate :: "real option"
  cfg_decayRate :: "real option"

text \<open>
  The state of a store: its private fields, and \<open>db\<close>, the contents of the database
  file at \<open>dbPath\<close>. Every operation opens the file, works on it and closes it; the
  connection is taken to succeed.
\<close>

record 'w MemoryStore =
  initialized :: bool
  currentTaskId :: "string option"
  baseline :: TaskBaseline
  sessionId :: string
  embed :: "string \<Rightarrow> error + float32array"
  vectorType :: VectorType
  topK :: int
  learningRate :: real
  decayRate :: real
  db :: "'w database"

text \<open>The constructor; \<open>config.dimensions\<close> is not read.\<close>

definition new_MemoryStore :: "MemelordConfig \<Rightarrow> 'w database \<Rightarrow> 'w MemoryStore" where
  "new_MemoryStore config file =
     \<lparr> initialized = False,
       currentTaskId = None,
       baseline = emptyBaseline,
       sessionId = cfg_sessionId config,
       embed = cfg_embed config,
       vectorType = (case cfg_vectorType config of None \<Rightarrow> vector32 | Some v \<Rightarrow> v),
       topK = (case cfg_topK config of None \<Rightarrow> 5 | Some k \<Rightarrow> k),
       learningRate = (case cfg_learningRate config of None \<Rightarrow> 0.1 | Some a \<Rightarrow> a),
       decayRate = (case cfg_decayRate config of None \<Rightarrow> 0.995 | Some r \<Rightarrow> r),
       db = file \<rparr>"

subsection \<open>init\<close>

text \<open>
  \<open>UPDATE memories SET embedding = NULL WHERE embedding IS NOT NULL AND
  length(embedding) < 1536\<close>
\<close>

definition repair_row :: "'w memory_row \<Rightarrow> 'w memory_row" where
  "repair_row m =
     (case m_embedding m of
        None \<Rightarrow> m
      | Some e \<Rightarrow> if length e < 1536 then m\<lparr>m_embedding := None\<rparr> else m)"

definition init :: "'w MemoryStore \<Rightarrow> 'w MemoryStore" where
  "init s =
     (if initialized s then s
      else let d = (db s)\<lparr>memories := map repair_row (memories (db s))\<rparr>;
               b = (case meta d ''baseline'' of None \<Rightarrow> baseline s | Some v \<Rightarrow> v)
           in s\<lparr>db := d, baseline := b, initialized := True\<rparr>)"

subsection \<open>insertRawMemory\<close>

text \<open>\<open>randomUUID()\<close> and the clock are inputs of each operation: \<open>newId\<close> and \<open>now\<close>.\<close>

definition insertRawMemory ::
  "string \<Rightarrow> string \<Rightarrow> js_number \<Rightarrow> string \<Rightarrow> int \<Rightarrow> real option MemoryStore
     \<Rightarrow> (error + string) \<times> real option MemoryStore" where
  "insertRawMemory content category weight newId now s =
     (let s1 = init s
      in case insert_memory
                \<lparr> m_id = newId, m_content = content, m_embedding = None,
                  m_category = category, m_weight = bind_number weight, m_initial_cost = 0,
                  m_created_at = now, m_last_retrieved = None, m_retrieval_count = 0,
                  m_source_task = currentTaskId s1 \<rparr> (db s1) of
           Inl e \<Rightarrow> (Inl e, s1)
         | Inr d \<Rightarrow> (Inr newId, s1\<lparr>db := d\<rparr>))"

subsection \<open>embedPending\<close>

fun embed_rows ::
  "(string \<Rightarrow> error + float32array) \<Rightarrow> (string \<times> string) list \<Rightarrow> error + (string \<times> blob) list" where
  "embed_rows f [] = Inr []"
| "embed_rows f ((i, c) # rows) =
     (case f c of
        Inl e \<Rightarrow> Inl e
      | Inr vec \<Rightarrow> (case embed_rows f rows of
                     Inl e \<Rightarrow> Inl e
                   | Inr es \<Rightarrow> Inr ((i, vecBuf vec) # es)))"

definition set_embedding :: "string \<Rightarrow> blob \<Rightarrow> 'w database \<Rightarrow> 'w database" where
  "set_embedding i e d =
     d\<lparr>memories := map (\<lambda>m. if m_id m = i then m\<lparr>m_embedding := Some e\<rparr> else m) (memories d)\<rparr>"

fun write_embeddings :: "(string \<times> blob) list \<Rightarrow> 'w database \<Rightarrow> 'w database" where
  "write_embeddings [] d = d"
| "write_embeddings ((i, e) # es) d = write_embeddings es (set_embedding i e d)"

definition embedPending :: "'w MemoryStore \<Rightarrow> (error + nat) \<times> 'w MemoryStore" where
  "embedPending s =
     (let s1 = init s;
          rows = map (\<lambda>m. (m_id m, m_content m))
                     (filter (\<lambda>m. m_embedding m = None) (memories (db s1)))
      in if rows = [] then (Inr 0, s1)
         else case embed_rows (embed s1) rows of
                Inl e \<Rightarrow> (Inl e, s1)
              | Inr es \<Rightarrow> (Inr (length rows), s1\<lparr>db := write_embeddings es (db s1)\<rparr>))"

subsection \<open>startTask\<close>

record 'w Memory =
  Memory_id :: string
  Memory_content :: string
  Memory_category :: string
  Memory_weight :: 'w
  Memory_score :: real
  Memory_createdAt :: int
  Memory_retrievalCount :: int

text \<open>
  The engine's \<open>vector_distance_cos(vfn(a), vfn(b))\<close> is a parameter \<open>vdc\<close>: given the
  configured vector function and two blobs it yields the distance, or \<open>None\<close> where the
  engine rejects its arguments (the statement then raises). The SELECT keeps the rows
  with a non-NULL embedding, each with its distance to the query vector; under
  \<open>LIMIT 0\<close> the engine computes no distance and yields no row.
\<close>

type_synonym distance_fn = "VectorType \<Rightarrow> blob \<Rightarrow> blob \<Rightarrow> real option"

fun select_embedded ::
  "distance_fn \<Rightarrow> VectorType \<Rightarrow> blob \<Rightarrow> 'w memory_row list \<Rightarrow> ('w memory_row \<times> real) list option" where
  "select_embedded vdc vt q [] = Some []"
| "select_embedded vdc vt q (m # ms) =
     (case m_embedding m of
        None \<Rightarrow> select_embedded vdc vt q ms
      | Some e \<Rightarrow> (case vdc vt e q of
                    None \<Rightarrow> None
                  | Some dv \<Rightarrow> (case select_embedded vdc vt q ms of
                                   None \<Rightarrow> None
                                 | Some rows \<Rightarrow> Some ((m, dv) # rows))))"

definition select_rows ::
  "distance_fn \<Rightarrow> VectorType \<Rightarrow> blob \<Rightarrow> int \<Rightarrow> 'w memory_row list
     \<Rightarrow> ('w memory_row \<times> real) list option" where
  "select_rows vdc vt q k ms = (if k = 0 then Some [] else select_embedded vdc vt q ms)"

text \<open>
  \<open>ORDER BY (1.0 - distance) * POWER(decayRate, (now - COALESCE(last_retrieved,
  created_at)) / 86400.0) DESC\<close>, rows of equal rank in storage order; \<open>POWER(x, y)\<close>
  is 1 for \<open>y = 0\<close> and \<open>x powr y\<close> otherwise. \<open>LIMIT k\<close> keeps the first \<open>k\<close>
  rows, all of them when \<open>k\<close> is negative.
\<close>

definition sql_power :: "real \<Rightarrow> real \<Rightarrow> real" where
  "sql_power x y = (if y = 0 then 1 else x powr y)"

definition rank :: "real \<Rightarrow> int \<Rightarrow> 'w memory_row \<times> real \<Rightarrow> real" where
  "rank rate now p =
     (case p of (m, dv) \<Rightarrow>
        (1.0 - dv) * (sql_power rate ((real_of_int now
            - real_of_int (case m_last_retrieved m of None \<Rightarrow> m_created_at m | Some t \<Rightarrow> t))
          / 86400.0)))"

definition limit :: "int \<Rightarrow> 'a list \<Rightarrow> 'a list" where
  "limit k xs = (if k < 0 then xs else take (nat k) xs)"

definition to_Memory :: "'w memory_row \<times> real \<Rightarrow> 'w Memory" where
  "to_Memory p =
     (case p of (m, dv) \<Rightarrow>
        \<lparr> Memory_id = m_id m, Memory_content = m_content m, Memory_category = m_category m,
          Memory_weight = m_weight m, Memory_score = 1.0 - dv,
          Memory_createdAt = m_created_at m, Memory_retrievalCount = m_retrieval_count m \<rparr>)"

text \<open>
  The loop over the retrieved memories: \<open>INSERT OR IGNORE INTO memory_retrievals\<close>
  (ignored when the key \<open>(memory_id, task_id)\<close> is present) and the update of
  \<open>last_retrieved\<close> and \<open>retrieval_count\<close>.
\<close>

definition record_retrieval :: "string \<Rightarrow> int \<Rightarrow> 'w Memory \<Rightarrow> 'w database \<Rightarrow> 'w database" where
  "record_retrieval taskId now mem d =
     d\<lparr> memory_retrievals :=
          (if \<exists>r \<in> set (memory_retrievals d). r_memory_id r = Memory_id mem \<and> r_task_id r = taskId
           then memory_retrievals d
           else memory_retrievals d @
                  [\<lparr> r_memory_id = Memory_id mem, r_task_id = taskId,
                     r_similarity = Memory_score mem, r_self_report = None, r_credit = None \<rparr>]),
        memories :=
          map (\<lambda>m. if m_id m = Memory_id mem
                   then m\<lparr>m_last_retrieved := Some now, m_retrieval_count := m_retrieval_count m + 1\<rparr>
                   else m) (memories d) \<rparr>"

fun record_retrievals :: "string \<Rightarrow> int \<Rightarrow> 'w Memory list \<Rightarrow> 'w database \<Rightarrow> 'w database" where
  "record_retrievals taskId now [] d = d"
| "record_retrievals taskId now (mem # mems) d =
     record_retrievals taskId now mems (record_retrieval taskId now mem d)"

definition startTask ::
  "distance_fn \<Rightarrow> string \<Rightarrow> string \<Rightarrow> int \<Rightarrow> 'w MemoryStore
     \<Rightarrow> (error + string \<times> 'w Memory list) \<times> 'w MemoryStore" where
  "startTask vdc description taskId now s =
     (let s1 = init s
      in case embed s1 description of
           Inl e \<Rightarrow> (Inl e, s1)
         | Inr taskEmbedding \<Rightarrow>
             (case embedPending s1 of
                (Inl e, s2) \<Rightarrow> (Inl e, s2)
              | (Inr n, s2) \<Rightarrow>
                  (case insert_task
                          \<lparr> t_id = taskId, t_description = description,
                            t_embedding = vecBuf taskEmbedding,
                            t_tokens_used = None, t_tool_calls = None, t_errors = None,
                            t_user_corrections = None, t_completed = None,
                            t_task_score = None, t_started_at = now,
                            t_finished_at = None \<rparr> (db s2) of
                     Inl e \<Rightarrow> (Inl e, s2)
                   | Inr d3 \<Rightarrow>
                       (case select_rows vdc (vectorType s2) (vecBuf taskEmbedding)
                               (topK s2) (memories d3) of
                          None \<Rightarrow> (Inl EngineError, s2\<lparr>db := d3\<rparr>)
                        | Some rows \<Rightarrow>
                            (let mems = map to_Memory
                                   (limit (topK s2)
                                      (sort_key (\<lambda>p. - rank (decayRate s2) now p) rows))
                             in (Inr (taskId, mems),
                                 s2\<lparr> db := record_retrievals taskId now mems d3,
                                     currentTaskId := Some taskId \<rparr>))))))"

subsection \<open>reportCorrection and reportUserInput\<close>

record ReportCorrectionInput =
  lesson :: string
  whatFailed :: string
  whatWorked :: string
  tokensWasted :: "real option"
  toolsWasted :: "real option"

text \<open>\<open>SELECT AVG(tokens_used) FROM tasks WHERE tokens_used IS NOT NULL\<close>: NULL on no row.\<close>

definition avg_tokens_used :: "'w database \<Rightarrow> real option" where
  "avg_tokens_used d =
     (let xs = List.map_filter t_tokens_used (tasks d)
      in if xs = [] then None else Some (sum_list xs / real (length xs)))"

definition correction_content :: "ReportCorrectionInput \<Rightarrow> string" where
  "correction_content input =
     lesson input @ [CHR 0x0A, CHR 0x0A] @ ''Failed approach: '' @ whatFailed input
       @ [CHR 0x0A] @ ''Working approach: '' @ whatWorked input"

definition reportCorrection ::
  "ReportCorrectionInput \<Rightarrow> string \<Rightarrow> int \<Rightarrow> real MemoryStore \<Rightarrow> (error + string) \<times> real MemoryStore" where
  "reportCorrection input newId now s =
     (let s1 = init s;
          content = correction_content input
      in case embed s1 content of
           Inl e \<Rightarrow> (Inl e, s1)
         | Inr embedding \<Rightarrow>
             (let avgTokens = (case avg_tokens_used (db s1) of None \<Rightarrow> 10000 | Some a \<Rightarrow> a);
                  weight = initialWeight ''correction'' None (tokensWasted input) (Some avgTokens)
              in case insert_memory
                        \<lparr> m_id = newId, m_content = content,
                          m_embedding = Some (vecBuf embedding),
                          m_category = ''correction'', m_weight = weight,
                          m_initial_cost = (case tokensWasted input of None \<Rightarrow> 0 | Some c \<Rightarrow> c),
                          m_created_at = now, m_last_retrieved = None, m_retrieval_count = 0,
                          m_source_task = currentTaskId s1 \<rparr> (db s1) of
                   Inl e \<Rightarrow> (Inl e, s1)
                 | Inr d \<Rightarrow> (Inr newId, s1\<lparr>db := d\<rparr>)))"

record ReportUserInput =
  ui_lesson :: string
  ui_source :: string

definition reportUserInput ::
  "ReportUserInput \<Rightarrow> string \<Rightarrow> int \<Rightarrow> real MemoryStore \<Rightarrow> (error + string) \<times> real MemoryStore" where
  "reportUserInput input newId now s =
     (let s1 = init s
      in case embed s1 (ui_lesson input) of
           Inl e \<Rightarrow> (Inl e, s1)
         | Inr embedding \<Rightarrow>
             (let weight = initialWeight ''user'' (Some (ui_source input)) None None
              in case insert_memory
                        \<lparr> m_id = newId, m_content = ui_lesson input,
                          m_embedding = Some (vecBuf embedding),
                          m_category = ''user'', m_weight = weight, m_initial_cost = 0,
                          m_created_at = now, m_last_retrieved = None, m_retrieval_count = 0,
                          m_source_task = currentTaskId s1 \<rparr> (db s1) of
                   Inl e \<Rightarrow> (Inl e, s1)
                 | Inr d \<Rightarrow> (Inr newId, s1\<lparr>db := d\<rparr>)))"

subsection \<open>endTask\<close>

record SelfReportEntry =
  memoryId :: string
  score :: real

record TaskEndInput =
  tokensUsed :: real
  toolCalls :: real
  errors :: real
  userCorrections :: real
  completed :: bool
  selfReport :: "SelfReportEntry list option"

text \<open>\<open>UPDATE tasks SET ... WHERE id = ?\<close>\<close>

definition finish_task :: "string \<Rightarrow> TaskEndInput \<Rightarrow> real \<Rightarrow> int \<Rightarrow> task_row \<Rightarrow> task_row" where
  "finish_task taskId input taskScore now t =
     (if t_id t = taskId
      then t\<lparr> t_tokens_used := Some (tokensUsed input), t_tool_calls := Some (toolCalls input),
              t_errors := Some (errors input),
              t_user_corrections := Some (userCorrections input),
              t_completed := Some (if completed input then 1 else 0),
              t_task_score := Some taskScore, t_finished_at := Some now \<rparr>
      else t)"

text \<open>The body of the loop over \<open>input.selfReport\<close>.\<close>

definition rate_memory ::
  "real \<Rightarrow> real \<Rightarrow> real \<Rightarrow> string \<Rightarrow> SelfReportEntry \<Rightarrow> real database \<Rightarrow> real database" where
  "rate_memory taskScore numRetrieved lr taskId entry d =
     (let credit = computeCredit taskScore (score entry) numRetrieved;
          d1 = (case get_memory d (memoryId entry) of
                  None \<Rightarrow> d
                | Some memRow \<Rightarrow>
                    (let newWeight = updateWeight (m_weight memRow) credit lr
                     in d\<lparr>memories := map (\<lambda>m. if m_id m = memoryId entry
                                                then m\<lparr>m_weight := newWeight\<rparr> else m)
                                          (memories d)\<rparr>))
      in d1\<lparr>memory_retrievals :=
              map (\<lambda>r. if r_memory_id r = memoryId entry \<and> r_task_id r = taskId
                       then r\<lparr>r_self_report := Some (score entry), r_credit := Some credit\<rparr>
                       else r) (memory_retrievals d1)\<rparr>)"

fun rate_memories ::
  "real \<Rightarrow> real \<Rightarrow> real \<Rightarrow> string \<Rightarrow> SelfReportEntry list \<Rightarrow> real database \<Rightarrow> real database" where
  "rate_memories taskScore numRetrieved lr taskId [] d = d"
| "rate_memories taskScore numRetrieved lr taskId (entry # entries) d =
     rate_memories taskScore numRetrieved lr taskId entries
       (rate_memory taskScore numRetrieved lr taskId entry d)"

definition endTask ::
  "string \<Rightarrow> TaskEndInput \<Rightarrow> int \<Rightarrow> real MemoryStore \<Rightarrow> (error + unit) \<times> real MemoryStore" where
  "endTask taskId input now s =
     (let s1 = init s;
          taskScore = computeTaskScore (baseline s1) (tokensUsed input) (errors input)
                        (userCorrections input) (completed input);
          b = updateBaseline (baseline s1) (tokensUsed input) (errors input)
                (userCorrections input);
          d1 = (db s1)\<lparr>tasks := map (finish_task taskId input taskScore now) (tasks (db s1))\<rparr>;
          d2 = d1\<lparr>meta := (meta d1)(''baseline'' \<mapsto> b)\<rparr>;
          d3 = (case selfReport input of
                  None \<Rightarrow> d2
                | Some entries \<Rightarrow>
                    if length entries > 0
                    then rate_memories taskScore (real (length entries)) (learningRate s1)
                           taskId entries d2
                    else d2)
      in (Inr (),
          s1\<lparr> baseline := b, db := d3,
              currentTaskId := (if currentTaskId s1 = Some taskId then None
                                else currentTaskId s1) \<rparr>))"

text \<open>The score \<open>endTask\<close> computes: that of the input against the baseline in force.\<close>

definition endTask_score :: "real MemoryStore \<Rightarrow> TaskEndInput \<Rightarrow> real" where
  "endTask_score s input =
     computeTaskScore (baseline (init s)) (tokensUsed input) (errors input)
       (userCorrections input) (completed input)"

subsection \<open>decay and penalizeMemory\<close>

record DecayResult =
  decayed :: nat
  deleted :: nat

text \<open>
  \<open>UPDATE memories SET weight = weight * ?\<close>, then
  \<open>DELETE FROM memories WHERE weight < 0.15 AND retrieval_count > 5\<close>.
\<close>

definition decay_delete :: "real memory_row \<Rightarrow> bool" where
  "decay_delete m = (m_weight m < 0.15 \<and> m_retrieval_count m > 5)"

definition decay :: "real MemoryStore \<Rightarrow> (error + DecayResult) \<times> real MemoryStore" where
  "decay s =
     (let s1 = init s;
          updated = map (\<lambda>m. m\<lparr>m_weight := m_weight m * decayRate s1\<rparr>) (memories (db s1));
          kept = filter (\<lambda>m. \<not> decay_delete m) updated
      in (Inr \<lparr> decayed = length updated, deleted = length updated - length kept \<rparr>,
          s1\<lparr>db := (db s1)\<lparr>memories := kept\<rparr>\<rparr>))"

text \<open>\<open>UPDATE memories SET weight = MAX(weight * ?, 0.1) WHERE id = ?\<close>\<close>

definition penalizeMemory ::
  "string \<Rightarrow> real \<Rightarrow> real MemoryStore \<Rightarrow> (error + unit) \<times> real MemoryStore" where
  "penalizeMemory mid factor s =
     (let s1 = init s
      in (Inr (),
          s1\<lparr>db := (db s1)\<lparr>memories :=
                 map (\<lambda>m. if m_id m = mid then m\<lparr>m_weight := max (m_weight m * factor) 0.1\<rparr>
                          else m) (memories (db s1))\<rparr>\<rparr>))"

subsection \<open>Sequences of operations\<close>

datatype operation =
    EndTask string TaskEndInput int
  | Decay
  | PenalizeMemory string real
  | ReportCorrection ReportCorrectionInput string int

fun apply_operation :: "real MemoryStore \<Rightarrow> operation \<Rightarrow> real MemoryStore" where
  "apply_operation s (EndTask taskId input now) = snd (endTask taskId input now s)"
| "apply_operation s Decay = snd (decay s)"
| "apply_operation s (PenalizeMemory mid factor) = snd (penalizeMemory mid factor s)"
| "apply_operation s (ReportCorrection input newId now) = snd (reportCorrection input newId now s)"

definition run :: "operation list \<Rightarrow> real MemoryStore \<Rightarrow> real MemoryStore" where
  "run ops s = foldl apply_operation s ops"

fun is_EndTask :: "operation \<Rightarrow> bool" where
  "is_EndTask (EndTask taskId input now) = True"
| "is_EndTask other = False"

text \<open>Every stored weight satisfies \<open>P\<close>.\<close>

definition all_weights :: "(real \<Rightarrow> bool) \<Rightarrow> real MemoryStore \<Rightarrow> bool" where
  "all_weights P s = list_all (\<lambda>m. P (m_weight m)) (memories (db s))"

definition weights_in_bounds :: "real MemoryStore \<Rightarrow> bool" where
  "weights_in_bounds s = all_weights (\<lambda>w. 0.1 \<le> w \<and> w \<le> 5.0) s"

definition weights_at_least :: "real MemoryStore \<Rightarrow> bool" where
  "weights_at_least s = all_weights (\<lambda>w. 0.1 \<le> w) s"

definition weights_at_most :: "real MemoryStore \<Rightarrow> bool" where
  "weights_at_most s = all_weights (\<lambda>w. w \<le> 5.0) s"

text \<open>Every recorded \<open>tokens_used\<close> is non-negative.\<close>

definition tokens_nonneg :: "real MemoryStore \<Rightarrow> bool" where
  "tokens_nonneg s =
     list_all (\<lambda>t. case t_tokens_used t of None \<Rightarrow> True | Some u \<Rightarrow> 0 \<le> u) (tasks (db s))"

text \<open>
  The operations under which the lower bound, respectively the upper bound, of the
  weights is kept; token counts are taken non-negative.
\<close>

fun keeps_lower_bound :: "operation \<Rightarrow> bool" where
  "keeps_lower_bound (EndTask taskId input now) = (0 \<le> tokensUsed input)"
| "keeps_lower_bound Decay = False"
| "keeps_lower_bound (PenalizeMemory mid factor) = True"
| "keeps_lower_bound (ReportCorrection input newId now) =
     (case tokensWasted input of None \<Rightarrow> True | Some c \<Rightarrow> 0 \<le> c)"

fun keeps_upper_bound :: "operation \<Rightarrow> bool" where
  "keeps_upper_bound (EndTask taskId input now) = True"
| "keeps_upper_bound Decay = True"
| "keeps_upper_bound other = False"

section \<open>The formulas of the specification\<close>

text \<open>
  The task score as the specification words it, over a standard deviation \<open>sd\<close>:
  the cold-start heuristic below ten tasks, the z-score form from ten tasks on.
  \<open>spec_stddev\<close> is the specification's standard deviation, \<open>sqrt(M2/(n - 1))\<close> when
  \<open>n \<ge> 2\<close> and 1 otherwise; \<open>guarded_stddev\<close> also takes 1 where that quotient is
  not positive.
\<close>

definition spec_stddev :: "real \<Rightarrow> nat \<Rightarrow> real" where
  "spec_stddev m2 n = (if n \<ge> 2 then sqrt (m2 / real (n - 1)) else 1)"

definition guarded_stddev :: "real \<Rightarrow> nat \<Rightarrow> real" where
  "guarded_stddev m2 n =
     (if n \<ge> 2 \<and> m2 / real (n - 1) > 0 then sqrt (m2 / real (n - 1)) else 1)"

definition spec_completedSignal :: "bool \<Rightarrow> real" where
  "spec_completedSignal c = (if c then 1 else - 1)"

definition spec_coldStart :: "TaskBaseline \<Rightarrow> real \<Rightarrow> real \<Rightarrow> real \<Rightarrow> bool \<Rightarrow> real" where
  "spec_coldStart b tokens errs userCorr c =
     (if count b = 0 then 0 else (meanTokens b - tokens) / max (meanTokens b) 1)
     + (if count b = 0 then 0 else (meanErrors b - errs) / max (meanErrors b) 1)
     - 0.5 * userCorr + spec_completedSignal c"

definition spec_z :: "(real \<Rightarrow> nat \<Rightarrow> real) \<Rightarrow> real \<Rightarrow> real \<Rightarrow> real \<Rightarrow> nat \<Rightarrow> real" where
  "spec_z sd x mean m2 n = (x - mean) / sd m2 n"

definition spec_zScore ::
  "(real \<Rightarrow> nat \<Rightarrow> real) \<Rightarrow> TaskBaseline \<Rightarrow> real \<Rightarrow> real \<Rightarrow> real \<Rightarrow> bool \<Rightarrow> real" where
  "spec_zScore sd b tokens errs userCorr c =
     - spec_z sd tokens (meanTokens b) (m2Tokens b) (count b)
     - spec_z sd errs (meanErrors b) (m2Errors b) (count b)
     - spec_z sd userCorr (meanUserCorrections b) (m2UserCorrections b) (count b)
     + spec_completedSignal c"

definition spec_taskScore ::
  "(real \<Rightarrow> nat \<Rightarrow> real) \<Rightarrow> TaskBaseline \<Rightarrow> real \<Rightarrow> real \<Rightarrow> real \<Rightarrow> bool \<Rightarrow> real" where
  "spec_taskScore sd b tokens errs userCorr c =
     (if count b < 10 then spec_coldStart b tokens errs userCorr c
      else spec_zScore sd b tokens errs userCorr c)"

text \<open>
  The initial weights as the specification words them: the average of \<open>tokens_used\<close>
  over the finished tasks, 10000 when there is none; the weight of a correction; the
  weight of a user memory by source.
\<close>

definition spec_avgTokensPerTask :: "'w database \<Rightarrow> real" where
  "spec_avgTokensPerTask d = (case avg_tokens_used d of None \<Rightarrow> 10000 | Some a \<Rightarrow> a)"

definition spec_correctionWeight :: "real \<Rightarrow> real \<Rightarrow> real" where
  "spec_correctionWeight wasted avgTokensPerTask = 1.0 + wasted / max avgTokensPerTask 1"

definition spec_userWeight :: "string \<Rightarrow> real" where
  "spec_userWeight source =
     (if source = ''user_denial'' then 2.0
      else if source = ''user_correction'' then 2.5
      else if source = ''user_input'' then 2.0
      else 2.0)"

text \<open>
  The credit of a rated memory and the weight update as the specification words them:
  \<open>credit = taskScore * (s/3) * (1/max(k,1))\<close> and
  \<open>w' = clamp((1 - alpha) * w + alpha * credit, 0.1, 5.0)\<close>.
\<close>

definition spec_credit :: "real \<Rightarrow> real \<Rightarrow> nat \<Rightarrow> real" where
  "spec_credit taskScore sc k = taskScore * (sc / 3) * (1 / max (real k) 1)"

definition spec_clamp :: "real \<Rightarrow> real \<Rightarrow> real \<Rightarrow> real" where
  "spec_clamp x lo hi = (if x < lo then lo else if x > hi then hi else x)"

definition spec_newWeight :: "real \<Rightarrow> real \<Rightarrow> real \<Rightarrow> real" where
  "spec_newWeight alpha w credit = spec_clamp ((1 - alpha) * w + alpha * credit) 0.1 5.0"

text \<open>
  The weight update applied once for each entry of a list, in the order of the list,
  and a \<open>memory_retrievals\<close> row after the ratings of a task: a row of that task
  takes the score and credit of the last entry that rates its memory, any other row is
  left as it is.
\<close>

definition spec_rated_weight :: "real \<Rightarrow> real \<Rightarrow> nat \<Rightarrow> real \<Rightarrow> SelfReportEntry list \<Rightarrow> real" where
  "spec_rated_weight alpha taskScore k w es =
     foldl (\<lambda>w e. spec_newWeight alpha w (spec_credit taskScore (score e) k)) w es"

definition spec_rated_row ::
  "real \<Rightarrow> nat \<Rightarrow> string \<Rightarrow> SelfReportEntry list \<Rightarrow> retrieval_row \<Rightarrow> retrieval_row" where
  "spec_rated_row taskScore k taskId es r =
     (if r_task_id r = taskId
      then (case find (\<lambda>x. memoryId x = r_memory_id r) (rev es) of
              None \<Rightarrow> r
            | Some e \<Rightarrow> r\<lparr>r_self_report := Some (score e),
                          r_credit := Some (spec_credit taskScore (score e) k)\<rparr>)
      else r)"

section \<open>Example stores\<close>

definition ex_config :: MemelordConfig where
  "ex_config =
     \<lparr> cfg_sessionId = ''session'', cfg_embed = (\<lambda>t. Inr [0, 0, 0, 0]),
       cfg_vectorType = None, cfg_dimensions = Some 8, cfg_topK = None,
       cfg_learningRate = None, cfg_decayRate = None \<rparr>"

definition ex_row :: "string \<Rightarrow> real \<Rightarrow> int \<Rightarrow> real memory_row" where
  "ex_row i w rc =
     \<lparr> m_id = i, m_content = ''text'', m_embedding = None, m_category = ''insight'',
       m_weight = w, m_initial_cost = 0, m_created_at = 0, m_last_retrieved = None,
       m_retrieval_count = rc, m_source_task = None \<rparr>"

definition ex_decay_store :: "real MemoryStore" where
  "ex_decay_store =
     new_MemoryStore ex_config
       (empty_database\<lparr>memories := [ex_row ''fresh'' 0.1 0, ex_row ''tried'' 0.1 6]\<rparr>)"

definition ex_empty_store :: "real MemoryStore" where
  "ex_empty_store = new_MemoryStore ex_config empty_database"

definition ex_end_input :: TaskEndInput where
  "ex_end_input =
     \<lparr> tokensUsed = 8000, toolCalls = 20, errors = 0, userCorrections = 0,
       completed = True, selfReport = None \<rparr>"

definition ex_rated_input :: TaskEndInput where
  "ex_rated_input =
     \<lparr> tokensUsed = 8000, toolCalls = 20, errors = 0, userCorrections = 0,
       completed = True,
       selfReport = Some [\<lparr> memoryId = ''fresh'', score = 3 \<rparr>, \<lparr> memoryId = ''tried'', score = 0 \<rparr>] \<rparr>"

definition ex_correction :: "real option \<Rightarrow> ReportCorrectionInput" where
  "ex_correction wasted =
     \<lparr> lesson = ''Auth middleware is in src/middleware'', whatFailed = ''src/auth'',
       whatWorked = ''src/middleware'', tokensWasted = wasted, toolsWasted = None \<rparr>"

definition ex_task :: "string \<Rightarrow> real option \<Rightarrow> task_row" where
  "ex_task i used =
     \<lparr> t_id = i, t_description = ''task'', t_embedding = [],
       t_tokens_used = used, t_tool_calls = Some 0, t_errors = Some 0,
       t_user_corrections = Some 0, t_completed = Some 1, t_task_score = Some 1,
       t_started_at = 0, t_finished_at = Some 1 \<rparr>"

definition ex_zero_avg_store :: "real MemoryStore" where
  "ex_zero_avg_store =
     new_MemoryStore ex_config (empty_database\<lparr>tasks := [ex_task ''t0'' (Some 0)]\<rparr>)"

definition ex_flat_baseline :: TaskBaseline where
  "ex_flat_baseline =
     \<lparr> count = 10, meanTokens = 8000, meanErrors = 0, meanUserCorrections = 0,
       m2Tokens = 9, m2Errors = 0, m2UserCorrections = 0 \<rparr>"

definition ex_engine :: distance_fn where
  "ex_engine vt a b = Some 0"

definition ex_rejecting_engine :: distance_fn where
  "ex_rejecting_engine vt a b = None"

definition ex_vec8 :: float32array where
  "ex_vec8 = [0, 0, 0, 0, 0, 0, 0, 0]"

definition ex_dim8_store :: "real MemoryStore" where
  "ex_dim8_store =
     new_MemoryStore ex_config
       (empty_database\<lparr>memories := [(ex_row ''e1'' 1 0)\<lparr>m_embedding := Some (vecBuf ex_vec8)\<rparr>]\<rparr>)"

definition ex_pending_store :: "real MemoryStore" where
  "ex_pending_store =
     new_MemoryStore ex_config (empty_database\<lparr>memories := [ex_row ''p1'' 1 0]\<rparr>)"

definition ex_pending_memory :: "real Memory" where
  "ex_pending_memory =
     \<lparr> Memory_id = ''p1'', Memory_content = ''text'', Memory_category = ''insight'',
       Memory_weight = 1, Memory_score = 1, Memory_createdAt = 0, Memory_retrievalCount = 0 \<rparr>"

definition ex_retrieval :: retrieval_row where
  "ex_retrieval =
     \<lparr> r_memory_id = ''fresh'', r_task_id = ''t1'', r_similarity = 0.9,
       r_self_report = None, r_credit = None \<rparr>"

definition ex_rated_store :: "real MemoryStore" where
  "ex_rated_store =
     new_MemoryStore ex_config
       (empty_database\<lparr>memories := [ex_row ''fresh'' 0.1 0, ex_row ''tried'' 0.1 6],
                        memory_retrievals := [ex_retrieval]\<rparr>)"

definition ex_dup_input :: TaskEndInput where
  "ex_dup_input =
     \<lparr> tokensUsed = 8000, toolCalls = 20, errors = 0, userCorrections = 0,
       completed = True,
       selfReport = Some [\<lparr> memoryId = ''fresh'', score = 3 \<rparr>, \<lparr> memoryId = ''fresh'', score = 0 \<rparr>] \<rparr>"

definition ex_raw_store :: "real option MemoryStore" where
  "ex_raw_store = new_MemoryStore ex_config empty_database"

section \<open>Properties\<close>

lemmas ex_defs = ex_config_def ex_row_def ex_decay_store_def ex_empty_store_def
  new_MemoryStore_def empty_database_def emptyBaseline_def ex_correction_def ex_task_def
  ex_zero_avg_store_def ex_dim8_store_def ex_pending_store_def ex_engine_def
  ex_rejecting_engine_def ex_pending_memory_def ex_retrieval_def ex_rated_store_def
  ex_rated_input_def ex_dup_input_def ex_raw_store_def

subsection \<open>init\<close>

lemma init_initialized: "initialized (init s)"
  by (simp add: init_def Let_def)

lemma init_id: "initialized s \<Longrightarrow> init s = s"
  by (simp add: init_def)

lemma tasks_init: "tasks (db (init s)) = tasks (db s)"
  by (simp add: init_def Let_def)

lemma embed_init: "embed (init s) = embed s"
  by (simp add: init_def Let_def)

lemma memories_init_weights:
  "map m_weight (memories (db (init s))) = map m_weight (memories (db s))"
  by (simp add: init_def Let_def repair_row_def split: option.splits)

lemma avg_init: "avg_tokens_used (db (init s)) = avg_tokens_used (db s)"
  by (simp add: avg_tokens_used_def tasks_init)

subsection \<open>decay\<close>

text \<open>
  C6: \<open>decay\<close> never deletes a memory whose \<open>retrieval_count\<close> is at most 5, whatever
  its weight. Every memory with \<open>retrieval_count \<le> 5\<close> is still there afterwards, its
  weight multiplied by \<open>decayRate\<close>; every memory left is a former memory with its weight
  multiplied by \<open>decayRate\<close>; and a memory that is gone had a decayed weight below 0.15
  and a \<open>retrieval_count\<close> above 5. (The memories before are those of \<open>init s\<close>, which
  is \<open>s\<close> itself for an initialised store.)
\<close>

theorem decay_removal_guard:
  "(\<forall>m \<in> set (memories (db (init s))).
      m_retrieval_count m \<le> 5 \<longrightarrow>
        m\<lparr>m_weight := m_weight m * decayRate s\<rparr> \<in> set (memories (db (snd (decay s)))))
 \<and> (\<forall>m' \<in> set (memories (db (snd (decay s)))).
      \<exists>m \<in> set (memories (db (init s))). m' = m\<lparr>m_weight := m_weight m * decayRate s\<rparr>)
 \<and> (\<forall>m \<in> set (memories (db (init s))).
      m\<lparr>m_weight := m_weight m * decayRate s\<rparr> \<notin> set (memories (db (snd (decay s)))) \<longrightarrow>
        m_weight m * decayRate s < 0.15 \<and> m_retrieval_count m > 5)"
proof -
  have r: "decayRate (init s) = decayRate s"
    by (simp add: init_def Let_def)
  show ?thesis
    by (auto simp: decay_def Let_def r decay_delete_def)
qed

text \<open>
  At a store with a never-retrieved memory and a memory retrieved six times, both of
  weight 0.1: the first survives with weight \<open>0.1 * 0.995\<close>, the second is deleted.
\<close>

theorem decay_removal_guard_witness:
  "ex_row ''fresh'' 0.1 0 \<in> set (memories (db (init ex_decay_store)))
   \<and> m_retrieval_count (ex_row ''fresh'' 0.1 0) \<le> 5
   \<and> (ex_row ''fresh'' 0.1 0)\<lparr>m_weight := 0.1 * decayRate ex_decay_store\<rparr>
        \<in> set (memories (db (snd (decay ex_decay_store))))
   \<and> ex_row ''tried'' 0.1 6 \<in> set (memories (db (init ex_decay_store)))
   \<and> (ex_row ''tried'' 0.1 6)\<lparr>m_weight := 0.1 * decayRate ex_decay_store\<rparr>
        \<notin> set (memories (db (snd (decay ex_decay_store))))
   \<and> m_retrieval_count (ex_row ''tried'' 0.1 6) > 5"
proof -
  have m: "memories (db (init ex_decay_store)) = [ex_row ''fresh'' 0.1 0, ex_row ''tried'' 0.1 6]"
    by (simp add: ex_defs init_def Let_def repair_row_def)
  have a: "memories (db (snd (decay ex_decay_store))) = [ex_row ''fresh'' (0.1 * 0.995) 0]"
    by (simp add: ex_defs decay_def init_def Let_def repair_row_def decay_delete_def)
  have r: "decayRate ex_decay_store = 0.995"
    by (simp add: ex_defs)
  from decay_removal_guard [of ex_decay_store] show ?thesis
    by (simp add: m a r ex_row_def)
qed

subsection \<open>insertRawMemory\<close>

lemma find_append_fresh:
  "i \<notin> set (map m_id ms) \<Longrightarrow>
     find (\<lambda>m. m_id m = i) (ms @ [row]) = (if m_id row = i then Some row else None)"
  by (induction ms) auto

text \<open>
  C9, as stated, fails at NaN: \<open>insertRawMemory\<close> with the weight NaN succeeds and
  the row it stores has the weight NULL, not NaN.
\<close>

theorem insertRawMemory_NaN_stored_as_NULL:
  "fst (insertRawMemory ''note'' ''insight'' NaN ''m1'' 0 ex_raw_store) = Inr ''m1''
   \<and> map m_weight (memories (db (snd (insertRawMemory ''note'' ''insight'' NaN ''m1'' 0
                                        ex_raw_store)))) = [None]"
  by (simp add: ex_defs insertRawMemory_def init_def Let_def insert_memory_def)

text \<open>
  C9, amended: for every weight \<open>x\<close> that is a number (inside or outside
  \<open>[0.1, 5.0]\<close>, but not NaN) and every category string,
  \<open>insertRawMemory content category x\<close> stores the row with weight exactly \<open>x\<close> and
  category exactly as given: the weight is not clamped and the category is not checked
  against the five category names. A NaN weight is stored as NULL, with the category
  as given. The new id is one the table does not hold yet.
\<close>

theorem insertRawMemory_stores_raw:
  assumes "newId \<notin> set (map m_id (memories (db (init s))))"
  shows "fst (insertRawMemory content category (Number x) newId now s) = Inr newId
       \<and> (\<exists>m. get_memory (db (snd (insertRawMemory content category (Number x) newId now s))) newId
                 = Some m
              \<and> m_weight m = Some x \<and> m_category m = category \<and> m_content m = content
              \<and> m_embedding m = None)
       \<and> fst (insertRawMemory content category NaN newId now s) = Inr newId
       \<and> (\<exists>m. get_memory (db (snd (insertRawMemory content category NaN newId now s))) newId
                 = Some m
              \<and> m_weight m = None \<and> m_category m = category \<and> m_content m = content
              \<and> m_embedding m = None)"
  using assms
  by (simp add: insertRawMemory_def Let_def insert_memory_def get_memory_def
        find_append_fresh)

theorem insertRawMemory_stores_raw_witness:
  "''m1'' \<notin> set (map m_id (memories (db (init ex_raw_store))))
   \<and> fst (insertRawMemory ''note'' ''no such category'' (Number 7) ''m1'' 0 ex_raw_store) = Inr ''m1''
   \<and> (\<exists>m. get_memory (db (snd (insertRawMemory ''note'' ''no such category'' (Number 7) ''m1'' 0
                                   ex_raw_store))) ''m1'' = Some m
          \<and> m_weight m = Some 7 \<and> m_category m = ''no such category'' \<and> m_content m = ''note''
          \<and> m_embedding m = None)"
proof -
  have h: "''m1'' \<notin> set (map m_id (memories (db (init ex_raw_store))))"
    by (simp add: ex_defs init_def Let_def)
  from insertRawMemory_stores_raw [OF h, of "''note''" "''no such category''" 7 0] h
  show ?thesis
    by blast
qed

subsection \<open>endTask\<close>

lemma tasks_rate_memory: "tasks (rate_memory ts k lr tid e d) = tasks d"
  by (simp add: rate_memory_def Let_def split: option.splits)

lemma meta_rate_memory: "meta (rate_memory ts k lr tid e d) = meta d"
  by (simp add: rate_memory_def Let_def split: option.splits)

lemma tasks_rate_memories: "tasks (rate_memories ts k lr tid es d) = tasks d"
  by (induction es arbitrary: d) (simp_all add: tasks_rate_memory)

lemma meta_rate_memories: "meta (rate_memories ts k lr tid es d) = meta d"
  by (induction es arbitrary: d) (simp_all add: meta_rate_memory)

lemma finish_task_other:
  "taskId \<notin> set (map t_id ts) \<Longrightarrow> map (finish_task taskId input sc now) ts = ts"
  by (induction ts) (auto simp: finish_task_def)

text \<open>
  C10: when \<open>taskId\<close> matches no row of \<open>tasks\<close>, \<open>endTask taskId input\<close> returns
  without an error, the \<open>tasks\<close> table is unchanged (the UPDATE touches no row), the
  count of the store's baseline is one more than that of the baseline in force (the
  one of \<open>init s\<close>: the store's own when it is initialised, the one reloaded from
  \<open>meta\<close> otherwise), and \<open>meta\<close> holds the new baseline under the key \<open>baseline\<close>.
\<close>

theorem endTask_unknown_task:
  assumes "taskId \<notin> set (map t_id (tasks (db s)))"
  shows "fst (endTask taskId input now s) = Inr ()
       \<and> tasks (db (snd (endTask taskId input now s))) = tasks (db s)
       \<and> count (baseline (snd (endTask taskId input now s))) = count (baseline (init s)) + 1
       \<and> meta (db (snd (endTask taskId input now s))) ''baseline''
           = Some (baseline (snd (endTask taskId input now s)))"
  using assms
  by (simp add: endTask_def Let_def tasks_rate_memories meta_rate_memories tasks_init
        finish_task_other updateBaseline_def split: option.splits)

theorem endTask_unknown_task_witness:
  "''ghost'' \<notin> set (map t_id (tasks (db ex_empty_store)))
   \<and> fst (endTask ''ghost'' ex_end_input 0 ex_empty_store) = Inr ()
   \<and> tasks (db (snd (endTask ''ghost'' ex_end_input 0 ex_empty_store))) = []
   \<and> count (baseline (snd (endTask ''ghost'' ex_end_input 0 ex_empty_store))) = 1"
proof -
  have h: "''ghost'' \<notin> set (map t_id (tasks (db ex_empty_store)))"
    by (simp add: ex_defs)
  have b: "count (baseline (init ex_empty_store)) = 0" "tasks (db ex_empty_store) = []"
    by (simp_all add: ex_defs init_def Let_def)
  from endTask_unknown_task [OF h, of ex_end_input 0] h b show ?thesis
    by simp
qed

subsection \<open>The task score\<close>

lemma stddev_guarded: "stddev m2 n = guarded_stddev m2 n"
  by (auto simp: stddev_def guarded_stddev_def Let_def not_less)

text \<open>
  C2, as stated, fails where a variance is zero: after ten tasks without a user
  correction \<open>m2UserCorrections\<close> is 0, the specification's standard deviation is 0
  and its z-score divides by it, while \<open>stddev\<close> falls back to 1. For a task with one
  user correction \<open>computeTaskScore\<close> returns 0, which is not the value of the
  specification's formula.
\<close>

theorem computeTaskScore_zero_variance:
  "spec_stddev (m2UserCorrections ex_flat_baseline) (count ex_flat_baseline) = 0
   \<and> stddev (m2UserCorrections ex_flat_baseline) (count ex_flat_baseline) = 1
   \<and> computeTaskScore ex_flat_baseline 8000 0 1 True = 0
   \<and> computeTaskScore ex_flat_baseline 8000 0 1 True
        \<noteq> spec_taskScore spec_stddev ex_flat_baseline 8000 0 1 True"
  by (simp add: ex_flat_baseline_def spec_stddev_def stddev_def computeTaskScore_def
        spec_taskScore_def spec_zScore_def spec_z_def spec_completedSignal_def Let_def)

text \<open>
  C2, amended: for every baseline and task outcome \<open>computeTaskScore\<close> returns the
  cold-start heuristic when \<open>count < 10\<close> (both ratio terms 0 when \<open>count = 0\<close>) and
  the z-score form when \<open>count \<ge> 10\<close>, where the standard deviation is
  \<open>sqrt(M2/(count - 1))\<close> when \<open>count \<ge> 2\<close> and that quotient is positive, and 1
  otherwise.
\<close>

theorem computeTaskScore_guarded:
  "computeTaskScore b tokens errs userCorr c
     = spec_taskScore guarded_stddev b tokens errs userCorr c"
  by (simp add: computeTaskScore_def spec_taskScore_def spec_coldStart_def spec_zScore_def
        spec_z_def spec_completedSignal_def stddev_guarded Let_def)

subsection \<open>Initial weights\<close>

text \<open>
  C7, as stated, fails on the divisor: with one finished task of 0 tokens the average
  is 0, \<open>initialWeight\<close> replaces it by 10000 and a correction that wasted 5000 tokens
  gets the weight 1.5, where \<open>1.0 + tokensWasted / max(avg, 1)\<close> is 5001.
\<close>

theorem initialWeight_zero_average:
  "spec_avgTokensPerTask (db ex_zero_avg_store) = 0
   \<and> map m_weight (memories (db (snd (reportCorrection (ex_correction (Some 5000)) ''m1'' 0
                                        ex_zero_avg_store)))) = [1.5]
   \<and> spec_correctionWeight 5000 (spec_avgTokensPerTask (db ex_zero_avg_store)) = 5001"
  by (simp add: ex_defs reportCorrection_def init_def Let_def insert_memory_def
        avg_tokens_used_def initialWeight_def or_default_def
        spec_avgTokensPerTask_def spec_correctionWeight_def)

text \<open>
  C7, amended: the memory inserted by \<open>reportCorrection\<close> has the weight
  \<open>1.0 + tokensWasted / avg\<close>, where a missing \<open>tokensWasted\<close> counts as 0 and
  \<open>avg\<close> is the average \<open>tokens_used\<close> over the finished tasks, replaced by 10000
  when there is no finished task or when that average is 0; no floor \<open>max(avg, 1)\<close>
  is applied, and the weight is the specification's whenever the average is at least 1.
  For category \<open>user\<close> the weight is 2.0 for \<open>user_denial\<close>, 2.5 for
  \<open>user_correction\<close>, 2.0 for \<open>user_input\<close> and 2.0 otherwise.
\<close>

theorem initialWeight_amended:
  assumes "embed s (correction_content input) = Inr v"
      and "newId \<notin> set (map m_id (memories (db (init s))))"
  shows "(\<exists>m. get_memory (db (snd (reportCorrection input newId now s))) newId = Some m
            \<and> m_weight m =
                1.0 + (case tokensWasted input of None \<Rightarrow> 0 | Some c \<Rightarrow> c)
                    / (case avg_tokens_used (db s) of
                         None \<Rightarrow> 10000
                       | Some a \<Rightarrow> if a = 0 then 10000 else a)
            \<and> (spec_avgTokensPerTask (db s) \<ge> 1 \<longrightarrow>
                 m_weight m = spec_correctionWeight
                                (case tokensWasted input of None \<Rightarrow> 0 | Some c \<Rightarrow> c)
                                (spec_avgTokensPerTask (db s))))
       \<and> initialWeight ''user'' (Some source) None None = spec_userWeight source"
  using assms
  by (auto simp: reportCorrection_def Let_def embed_init avg_init insert_memory_def
        get_memory_def find_append_fresh initialWeight_def or_default_def
        spec_avgTokensPerTask_def spec_correctionWeight_def spec_userWeight_def
        split: option.splits)

theorem initialWeight_amended_witness:
  "embed ex_empty_store (correction_content (ex_correction (Some 1500))) = Inr [0, 0, 0, 0]
   \<and> ''m1'' \<notin> set (map m_id (memories (db (init ex_empty_store))))
   \<and> spec_avgTokensPerTask (db ex_empty_store) \<ge> 1
   \<and> (\<exists>m. get_memory (db (snd (reportCorrection (ex_correction (Some 1500)) ''m1'' 0
                                   ex_empty_store))) ''m1'' = Some m
          \<and> m_weight m = 1.15
          \<and> m_weight m = spec_correctionWeight 1500 10000)
   \<and> initialWeight ''user'' (Some ''user_correction'') None None = 2.5"
proof -
  have e: "embed ex_empty_store (correction_content (ex_correction (Some 1500))) = Inr [0, 0, 0, 0]"
    by (simp add: ex_defs)
  have f: "''m1'' \<notin> set (map m_id (memories (db (init ex_empty_store))))"
    by (simp add: ex_defs init_def Let_def)
  have a: "avg_tokens_used (db ex_empty_store) = None"
    by (simp add: ex_defs avg_tokens_used_def List.map_filter_simps)
  have t: "tokensWasted (ex_correction (Some 1500)) = Some 1500"
    by (simp add: ex_correction_def)
  from initialWeight_amended [OF e f, of 0 "''user_correction''"] e f show ?thesis
    by (simp add: a t spec_avgTokensPerTask_def spec_userWeight_def spec_correctionWeight_def)
qed

subsection \<open>Weight bounds\<close>

lemma all_weights_init: "all_weights P (init s) = all_weights P s"
proof -
  have "list_all (\<lambda>m. P (m_weight m)) ms = list_all P (map m_weight ms)" for ms :: "real memory_row list"
    by (simp add: list_all_iff)
  then show ?thesis
    by (simp add: all_weights_def memories_init_weights)
qed

lemma updateWeight_ge: "0.1 \<le> updateWeight w c lr"
  by (simp add: updateWeight_def Let_def)

lemma updateWeight_le: "updateWeight w c lr \<le> 5.0"
  by (simp add: updateWeight_def Let_def)

lemma all_weights_single:
  "map m_weight (memories (db s)) = [v] \<Longrightarrow> all_weights P s = P v"
  by (cases "memories (db s)") (auto simp: all_weights_def)

lemma rate_memory_weights:
  assumes "list_all (\<lambda>m. P (m_weight m)) (memories d)" and "\<And>w c. P (updateWeight w c lr)"
  shows "list_all (\<lambda>m. P (m_weight m)) (memories (rate_memory ts k lr tid e d))"
  using assms
  by (auto simp: rate_memory_def Let_def list_all_iff split: option.splits)

lemma rate_memories_weights:
  assumes "list_all (\<lambda>m. P (m_weight m)) (memories d)" and "\<And>w c. P (updateWeight w c lr)"
  shows "list_all (\<lambda>m. P (m_weight m)) (memories (rate_memories ts k lr tid es d))"
  using assms(1)
proof (induction es arbitrary: d)
  case Nil
  then show ?case by simp
next
  case (Cons e es)
  from Cons.prems assms(2) have "list_all (\<lambda>m. P (m_weight m)) (memories (rate_memory ts k lr tid e d))"
    by (rule rate_memory_weights)
  then show ?case
    by (simp add: Cons.IH)
qed

lemma endTask_weights:
  assumes "all_weights P s" and "\<And>w c lr. P (updateWeight w c lr)"
  shows "all_weights P (snd (endTask tid input now s))"
proof -
  from assms(1) have "all_weights P (init s)"
    by (simp add: all_weights_init)
  then have i: "list_all (\<lambda>m. P (m_weight m)) (memories (db (init s)))"
    by (simp add: all_weights_def)
  have "list_all (\<lambda>m. P (m_weight m))
          (memories (rate_memories ts k (learningRate (init s)) tid es
             ((db (init s))\<lparr>tasks := tk, meta := mt\<rparr>)))" for ts k es tk mt
    by (rule rate_memories_weights) (simp_all add: i assms(2))
  with i show ?thesis
    by (simp add: endTask_def Let_def all_weights_def split: option.splits)
qed

lemma penalizeMemory_at_least:
  assumes "all_weights (\<lambda>w. 0.1 \<le> w) s"
  shows "all_weights (\<lambda>w. 0.1 \<le> w) (snd (penalizeMemory mid f s))"
proof -
  from assms have "all_weights (\<lambda>w. 0.1 \<le> w) (init s)"
    by (simp only: all_weights_init)
  then show ?thesis
    by (auto simp: penalizeMemory_def Let_def all_weights_def list_all_iff)
qed

lemma run_Cons: "run (op # ops) s = run ops (apply_operation s op)"
  by (simp add: run_def)

lemma run_EndTask_weights:
  assumes "all_weights P s" and "list_all is_EndTask ops" and "\<And>w c lr. P (updateWeight w c lr)"
  shows "all_weights P (run ops s)"
  using assms(1,2)
proof (induction ops arbitrary: s)
  case Nil
  then show ?case by (simp add: run_def)
next
  case (Cons op ops)
  then obtain tid input now where op: "op = EndTask tid input now"
    by (cases op) auto
  from Cons.prems(1) assms(3) have "all_weights P (snd (endTask tid input now s))"
    by (rule endTask_weights)
  then have "all_weights P (apply_operation s op)"
    by (simp add: op)
  with Cons.prems Cons.IH [of "apply_operation s op"] show ?case
    by (simp add: run_Cons)
qed

lemma decayRate_init: "decayRate (init s) = decayRate s"
  by (simp add: init_def Let_def)

lemma decayRate_endTask: "decayRate (snd (endTask tid input now s)) = decayRate s"
  by (simp add: endTask_def Let_def decayRate_init)

lemma decayRate_decay: "decayRate (snd (decay s)) = decayRate s"
  by (simp add: decay_def Let_def decayRate_init)

lemma decay_at_most:
  assumes "all_weights (\<lambda>w. w \<le> 5.0) s" and "0 \<le> decayRate s" and "decayRate s \<le> 1"
  shows "all_weights (\<lambda>w. w \<le> 5.0) (snd (decay s))"
proof -
  have m: "w * decayRate s \<le> 5" if "w \<le> 5" for w :: real
  proof (cases "0 \<le> w")
    case True
    with assms(3) have "w * decayRate s \<le> w * 1"
      by (intro mult_left_mono) simp_all
    with that show ?thesis by simp
  next
    case False
    with assms(2) have "w * decayRate s \<le> 0"
      by (simp add: mult_le_0_iff)
    then show ?thesis by simp
  qed
  from assms(1) have "all_weights (\<lambda>w. w \<le> 5.0) (init s)"
    by (simp only: all_weights_init)
  then show ?thesis
    using m by (auto simp: decay_def Let_def all_weights_def list_all_iff decayRate_init)
qed

lemma tasks_penalizeMemory: "tasks (db (snd (penalizeMemory mid f s))) = tasks (db s)"
  by (simp add: penalizeMemory_def Let_def tasks_init)

lemma tasks_reportCorrection: "tasks (db (snd (reportCorrection input newId now s))) = tasks (db s)"
  by (simp add: reportCorrection_def Let_def tasks_init insert_memory_def split: sum.splits)

lemma tokens_nonneg_endTask:
  assumes "tokens_nonneg s" and "0 \<le> tokensUsed input"
  shows "tokens_nonneg (snd (endTask tid input now s))"
proof -
  have "tasks (db (snd (endTask tid input now s)))
          = map (finish_task tid input
                   (computeTaskScore (baseline (init s)) (tokensUsed input) (errors input)
                      (userCorrections input) (completed input)) now) (tasks (db s))"
    by (simp add: endTask_def Let_def tasks_rate_memories tasks_init split: option.splits)
  with assms show ?thesis
    by (auto simp: tokens_nonneg_def list_all_iff finish_task_def)
qed

lemma avg_tokens_used_nonneg:
  assumes "tokens_nonneg s" and "avg_tokens_used (db s) = Some a"
  shows "0 \<le> a"
proof -
  let ?xs = "List.map_filter t_tokens_used (tasks (db s))"
  from assms(1) have "\<forall>x \<in> set ?xs. 0 \<le> x"
    by (auto simp: tokens_nonneg_def list_all_iff map_filter_def)
  then have "0 \<le> sum_list ?xs"
    by (simp add: sum_list_nonneg)
  moreover from assms(2) have "a = sum_list ?xs / real (length ?xs)"
    by (auto simp: avg_tokens_used_def Let_def split: if_splits)
  ultimately show ?thesis
    by simp
qed

lemma initialWeight_correction_ge:
  assumes "case tw of None \<Rightarrow> True | Some c \<Rightarrow> 0 \<le> c" and "0 \<le> a"
  shows "1 \<le> initialWeight ''correction'' None tw (Some a)"
proof -
  from assms(1) have c: "0 \<le> or_default tw 0"
    by (simp add: or_default_def split: option.splits)
  from assms(2) have a: "0 < or_default (Some a) 10000"
    by (simp add: or_default_def)
  from c a have "0 \<le> or_default tw 0 / or_default (Some a) 10000"
    by simp
  then show ?thesis
    by (simp add: initialWeight_def Let_def)
qed

lemma reportCorrection_at_least:
  assumes "all_weights (\<lambda>w. 0.1 \<le> w) s" and "tokens_nonneg s"
      and "case tokensWasted input of None \<Rightarrow> True | Some c \<Rightarrow> 0 \<le> c"
  shows "all_weights (\<lambda>w. 0.1 \<le> w) (snd (reportCorrection input newId now s))"
proof -
  from assms(1) have i: "all_weights (\<lambda>w. 0.1 \<le> w) (init s)"
    by (simp only: all_weights_init)
  have "0 \<le> (case avg_tokens_used (db s) of None \<Rightarrow> 10000 | Some a \<Rightarrow> a)"
    using avg_tokens_used_nonneg [OF assms(2)] by (simp split: option.splits)
  with assms(3)
  have "1 \<le> initialWeight ''correction'' None (tokensWasted input)
               (Some (case avg_tokens_used (db s) of None \<Rightarrow> 10000 | Some a \<Rightarrow> a))"
    by (rule initialWeight_correction_ge)
  then have w: "0.1 \<le> initialWeight ''correction'' None (tokensWasted input)
               (Some (case avg_tokens_used (db s) of None \<Rightarrow> 10000 | Some a \<Rightarrow> a))"
    by simp
  from i w show ?thesis
    by (auto simp: reportCorrection_def Let_def insert_memory_def all_weights_def avg_init
        split: sum.splits)
qed

lemma run_lower_bound:
  assumes "all_weights (\<lambda>w. 0.1 \<le> w) s" and "tokens_nonneg s"
      and "list_all keeps_lower_bound ops"
  shows "all_weights (\<lambda>w. 0.1 \<le> w) (run ops s)"
  using assms
proof (induction ops arbitrary: s)
  case Nil
  then show ?case by (simp add: run_def)
next
  case (Cons op ops)
  from Cons.prems(3) have k: "keeps_lower_bound op" and ks: "list_all keeps_lower_bound ops"
    by simp_all
  have "all_weights (\<lambda>w. 0.1 \<le> w) (apply_operation s op) \<and> tokens_nonneg (apply_operation s op)"
  proof (cases op)
    case (EndTask tid input now)
    with k have t: "0 \<le> tokensUsed input"
      by simp
    have "all_weights (\<lambda>w. 0.1 \<le> w) (snd (endTask tid input now s))"
      using Cons.prems(1) by (rule endTask_weights) (rule updateWeight_ge)
    moreover from Cons.prems(2) t have "tokens_nonneg (snd (endTask tid input now s))"
      by (rule tokens_nonneg_endTask)
    ultimately show ?thesis
      by (simp add: EndTask)
  next
    case Decay
    with k show ?thesis by simp
  next
    case (PenalizeMemory mid f)
    from Cons.prems(1) have "all_weights (\<lambda>w. 0.1 \<le> w) (snd (penalizeMemory mid f s))"
      by (rule penalizeMemory_at_least)
    with Cons.prems(2) show ?thesis
      by (simp add: PenalizeMemory tokens_nonneg_def tasks_penalizeMemory)
  next
    case (ReportCorrection input newId now)
    with k have t: "case tokensWasted input of None \<Rightarrow> True | Some c \<Rightarrow> 0 \<le> c"
      by simp
    from Cons.prems(1,2) t
    have "all_weights (\<lambda>w. 0.1 \<le> w) (snd (reportCorrection input newId now s))"
      by (rule reportCorrection_at_least)
    with Cons.prems(2) show ?thesis
      by (simp add: ReportCorrection tokens_nonneg_def tasks_reportCorrection)
  qed
  with ks Cons.IH [of "apply_operation s op"] show ?case
    by (simp add: run_Cons)
qed

lemma run_upper_bound:
  assumes "all_weights (\<lambda>w. w \<le> 5.0) s" and "0 \<le> decayRate s" and "decayRate s \<le> 1"
      and "list_all keeps_upper_bound ops"
  shows "all_weights (\<lambda>w. w \<le> 5.0) (run ops s)"
  using assms
proof (induction ops arbitrary: s)
  case Nil
  then show ?case by (simp add: run_def)
next
  case (Cons op ops)
  from Cons.prems(4) have k: "keeps_upper_bound op" and ks: "list_all keeps_upper_bound ops"
    by simp_all
  have "all_weights (\<lambda>w. w \<le> 5.0) (apply_operation s op)
        \<and> decayRate (apply_operation s op) = decayRate s"
  proof (cases op)
    case (EndTask tid input now)
    have "all_weights (\<lambda>w. w \<le> 5.0) (snd (endTask tid input now s))"
      using Cons.prems(1) by (rule endTask_weights) (rule updateWeight_le)
    then show ?thesis
      by (simp add: EndTask decayRate_endTask)
  next
    case Decay
    from Cons.prems(1,2,3) have "all_weights (\<lambda>w. w \<le> 5.0) (snd (decay s))"
      by (rule decay_at_most)
    then show ?thesis
      by (simp add: Decay decayRate_decay)
  next
    case (PenalizeMemory mid f)
    with k show ?thesis by simp
  next
    case (ReportCorrection input newId now)
    with k show ?thesis by simp
  qed
  with ks Cons.prems(2,3) Cons.IH [of "apply_operation s op"] show ?case
    by (simp add: run_Cons)
qed

text \<open>
  C1, as stated, fails: from the empty store, \<open>reportCorrection\<close> with 50000 wasted
  tokens stores the weight 6; a correction of weight 1 penalised by the factor 0.1 has
  weight 0.1 and one \<open>decay\<close> takes it to \<open>0.1 * 0.995\<close>, below 0.1, without deleting
  it; and \<open>penalizeMemory\<close> with the factor 10 takes a weight of 1 to 10.
\<close>

theorem weight_bounds_counterexample:
  "weights_in_bounds ex_empty_store
   \<and> \<not> weights_in_bounds (run [ReportCorrection (ex_correction (Some 50000)) ''m1'' 0] ex_empty_store)
   \<and> \<not> weights_in_bounds (run [ReportCorrection (ex_correction None) ''m1'' 0,
                                PenalizeMemory ''m1'' 0.1, Decay] ex_empty_store)
   \<and> \<not> weights_in_bounds (run [ReportCorrection (ex_correction None) ''m1'' 0,
                                PenalizeMemory ''m1'' 10] ex_empty_store)"
proof -
  have a: "map m_weight (memories (db (run [ReportCorrection (ex_correction (Some 50000)) ''m1'' 0] ex_empty_store))) = [6]"
    by (simp add: run_def ex_defs reportCorrection_def init_def Let_def insert_memory_def
        avg_tokens_used_def initialWeight_def or_default_def)
  have b: "map m_weight (memories (db (run [ReportCorrection (ex_correction None) ''m1'' 0,
                                PenalizeMemory ''m1'' 0.1, Decay] ex_empty_store))) = [0.1 * 0.995]"
    by (simp add: run_def ex_defs reportCorrection_def init_def Let_def insert_memory_def
        avg_tokens_used_def initialWeight_def or_default_def
        penalizeMemory_def decay_def decay_delete_def)
  have c: "map m_weight (memories (db (run [ReportCorrection (ex_correction None) ''m1'' 0,
                                PenalizeMemory ''m1'' 10] ex_empty_store))) = [10]"
    by (simp add: run_def ex_defs reportCorrection_def init_def Let_def insert_memory_def
        avg_tokens_used_def initialWeight_def or_default_def
        penalizeMemory_def)
  have e: "memories (db ex_empty_store) = []"
    by (simp add: ex_defs)
  have "weights_in_bounds ex_empty_store"
    by (simp add: weights_in_bounds_def all_weights_def e)
  moreover have "\<not> weights_in_bounds
      (run [ReportCorrection (ex_correction (Some 50000)) ''m1'' 0] ex_empty_store)"
    unfolding weights_in_bounds_def all_weights_single [OF a] by simp
  moreover have "\<not> weights_in_bounds
      (run [ReportCorrection (ex_correction None) ''m1'' 0, PenalizeMemory ''m1'' 0.1, Decay]
         ex_empty_store)"
    unfolding weights_in_bounds_def all_weights_single [OF b] by simp
  moreover have "\<not> weights_in_bounds
      (run [ReportCorrection (ex_correction None) ''m1'' 0, PenalizeMemory ''m1'' 10]
         ex_empty_store)"
    unfolding weights_in_bounds_def all_weights_single [OF c] by simp
  ultimately show ?thesis
    by (intro conjI)
qed

text \<open>
  C1, amended: the lower bound 0.1 is an invariant of \<open>endTask\<close>, \<open>penalizeMemory\<close>
  and \<open>reportCorrection\<close>: if every weight is at least 0.1 (and no token count is
  negative), it is so after any sequence of these operations. The upper bound 5.0 is an
  invariant of \<open>endTask\<close> and \<open>decay\<close> when \<open>decayRate\<close> lies in \<open>[0, 1]\<close>. So
  the interval \<open>[0.1, 5.0]\<close> is an invariant of \<open>endTask\<close>: if every weight lies in
  it, every weight lies in it after any sequence of \<open>endTask\<close> operations.
\<close>

theorem weight_bounds_amended:
  "(weights_at_least s \<and> tokens_nonneg s \<and> list_all keeps_lower_bound ops
      \<longrightarrow> weights_at_least (run ops s))
 \<and> (weights_at_most s \<and> 0 \<le> decayRate s \<and> decayRate s \<le> 1 \<and> list_all keeps_upper_bound ops
      \<longrightarrow> weights_at_most (run ops s))
 \<and> (weights_in_bounds s \<and> list_all is_EndTask ops \<longrightarrow> weights_in_bounds (run ops s))"
proof (intro conjI impI)
  assume "weights_at_least s \<and> tokens_nonneg s \<and> list_all keeps_lower_bound ops"
  then have "all_weights (\<lambda>w. 0.1 \<le> w) s" and "tokens_nonneg s"
    and "list_all keeps_lower_bound ops"
    by (simp_all only: weights_at_least_def)
  then have "all_weights (\<lambda>w. 0.1 \<le> w) (run ops s)"
    by (rule run_lower_bound)
  then show "weights_at_least (run ops s)"
    by (simp only: weights_at_least_def)
next
  assume "weights_at_most s \<and> 0 \<le> decayRate s \<and> decayRate s \<le> 1
            \<and> list_all keeps_upper_bound ops"
  then have "all_weights (\<lambda>w. w \<le> 5.0) s" and "0 \<le> decayRate s" and "decayRate s \<le> 1"
    and "list_all keeps_upper_bound ops"
    by (simp_all only: weights_at_most_def)
  then have "all_weights (\<lambda>w. w \<le> 5.0) (run ops s)"
    by (rule run_upper_bound)
  then show "weights_at_most (run ops s)"
    by (simp only: weights_at_most_def)
next
  assume "weights_in_bounds s \<and> list_all is_EndTask ops"
  then have w: "all_weights (\<lambda>w. 0.1 \<le> w \<and> w \<le> 5.0) s" and l: "list_all is_EndTask ops"
    by (simp_all only: weights_in_bounds_def)
  from w l have "all_weights (\<lambda>w. 0.1 \<le> w \<and> w \<le> 5.0) (run ops s)"
  proof (rule run_EndTask_weights)
    show "0.1 \<le> updateWeight w c lr \<and> updateWeight w c lr \<le> 5.0" for w c lr
      using updateWeight_ge updateWeight_le by (rule conjI)
  qed
  then show "weights_in_bounds (run ops s)"
    by (simp only: weights_in_bounds_def)
qed

theorem weight_bounds_amended_witness:
  "weights_at_least ex_decay_store \<and> tokens_nonneg ex_decay_store
   \<and> list_all keeps_lower_bound
        [ReportCorrection (ex_correction (Some 1500)) ''m1'' 0, EndTask ''t1'' ex_rated_input 0,
         PenalizeMemory ''fresh'' 0.5]
   \<and> weights_at_least
        (run [ReportCorrection (ex_correction (Some 1500)) ''m1'' 0, EndTask ''t1'' ex_rated_input 0,
              PenalizeMemory ''fresh'' 0.5] ex_decay_store)
   \<and> weights_at_most ex_decay_store
   \<and> 0 \<le> decayRate ex_decay_store \<and> decayRate ex_decay_store \<le> 1
   \<and> list_all keeps_upper_bound [EndTask ''t1'' ex_rated_input 0, Decay]
   \<and> weights_at_most (run [EndTask ''t1'' ex_rated_input 0, Decay] ex_decay_store)
   \<and> weights_in_bounds ex_decay_store
   \<and> list_all is_EndTask [EndTask ''t1'' ex_rated_input 0]
   \<and> weights_in_bounds (run [EndTask ''t1'' ex_rated_input 0] ex_decay_store)"
proof -
  let ?lower = "[ReportCorrection (ex_correction (Some 1500)) ''m1'' 0,
                 EndTask ''t1'' ex_rated_input 0, PenalizeMemory ''fresh'' 0.5]"
  let ?upper = "[EndTask ''t1'' ex_rated_input 0, Decay]"
  let ?both = "[EndTask ''t1'' ex_rated_input 0]"
  have m: "memories (db ex_decay_store) = [ex_row ''fresh'' 0.1 0, ex_row ''tried'' 0.1 6]"
    by (simp add: ex_defs)
  have a: "weights_at_least ex_decay_store" "weights_at_most ex_decay_store"
    "weights_in_bounds ex_decay_store"
    by (simp_all add: weights_at_least_def weights_at_most_def weights_in_bounds_def
        all_weights_def m ex_row_def)
  have b: "tokens_nonneg ex_decay_store" "0 \<le> decayRate ex_decay_store"
    "decayRate ex_decay_store \<le> 1"
    by (simp_all add: tokens_nonneg_def ex_defs)
  have c: "list_all keeps_lower_bound ?lower" "list_all keeps_upper_bound ?upper"
    "list_all is_EndTask ?both"
    by (simp_all add: ex_correction_def ex_rated_input_def)
  from weight_bounds_amended [of ex_decay_store ?lower] a b c
  have d: "weights_at_least (run ?lower ex_decay_store)"
    by blast
  from weight_bounds_amended [of ex_decay_store ?upper] a b c
  have e: "weights_at_most (run ?upper ex_decay_store)"
    by blast
  from weight_bounds_amended [of ex_decay_store ?both] a c
  have f: "weights_in_bounds (run ?both ex_decay_store)"
    by blast
  from a b c d e f show ?thesis
    by (intro conjI)
qed

subsection \<open>Credit assignment in endTask\<close>

lemma rate_memories_append:
  "rate_memories ts k lr tid (xs @ ys) d = rate_memories ts k lr tid ys (rate_memories ts k lr tid xs d)"
  by (induction xs arbitrary: d) simp_all

lemma find_id_map_other:
  assumes "j \<noteq> i" and "\<And>m. m_id (f m) = m_id m"
  shows "find (\<lambda>m. m_id m = i) (map (\<lambda>m. if m_id m = j then f m else m) ms)
           = find (\<lambda>m. m_id m = i) ms"
  using assms by (induction ms) auto

lemma find_id_map_same:
  assumes "\<And>m. m_id (f m) = m_id m"
  shows "find (\<lambda>m. m_id m = i) (map (\<lambda>m. if m_id m = i then f m else m) ms)
           = map_option f (find (\<lambda>m. m_id m = i) ms)"
  using assms by (induction ms) auto

lemma get_memory_rate_other:
  "memoryId e \<noteq> i \<Longrightarrow> get_memory (rate_memory ts k lr tid e d) i = get_memory d i"
  by (simp add: rate_memory_def Let_def get_memory_def find_id_map_other split: option.splits)

lemma get_memory_rate_same:
  "get_memory d (memoryId e) = Some m \<Longrightarrow>
     get_memory (rate_memory ts k lr tid e d) (memoryId e)
       = Some (m\<lparr>m_weight := updateWeight (m_weight m) (computeCredit ts (score e) k) lr\<rparr>)"
  by (simp add: rate_memory_def Let_def get_memory_def find_id_map_same)

lemma get_memory_rate_memories_other:
  "\<forall>x \<in> set es. memoryId x \<noteq> i \<Longrightarrow> get_memory (rate_memories ts k lr tid es d) i = get_memory d i"
  by (induction es arbitrary: d) (simp_all add: get_memory_rate_other)

lemma retrievals_rate_memory:
  "memory_retrievals (rate_memory ts k lr tid e d)
     = map (\<lambda>r. if r_memory_id r = memoryId e \<and> r_task_id r = tid
                then r\<lparr>r_self_report := Some (score e),
                       r_credit := Some (computeCredit ts (score e) k)\<rparr>
                else r) (memory_retrievals d)"
  by (simp add: rate_memory_def Let_def split: option.splits)

lemma retrievals_rate_other:
  assumes "r \<in> set (memory_retrievals d)" and "r_memory_id r \<noteq> memoryId e"
  shows "r \<in> set (memory_retrievals (rate_memory ts k lr tid e d))"
proof -
  let ?f = "\<lambda>r. if r_memory_id r = memoryId e \<and> r_task_id r = tid
                then r\<lparr>r_self_report := Some (score e),
                       r_credit := Some (computeCredit ts (score e) k)\<rparr>
                else r"
  from assms(1) have "r \<in> ?f ` set (memory_retrievals d)"
    by (rule rev_image_eqI) (simp add: assms(2))
  then show ?thesis
    by (simp only: retrievals_rate_memory set_map)
qed

lemma retrievals_rate_same:
  assumes "r \<in> set (memory_retrievals d)" and "r_memory_id r = memoryId e" and "r_task_id r = tid"
  shows "r\<lparr>r_self_report := Some (score e), r_credit := Some (computeCredit ts (score e) k)\<rparr>
       \<in> set (memory_retrievals (rate_memory ts k lr tid e d))"
proof -
  let ?f = "\<lambda>r. if r_memory_id r = memoryId e \<and> r_task_id r = tid
                then r\<lparr>r_self_report := Some (score e),
                       r_credit := Some (computeCredit ts (score e) k)\<rparr>
                else r"
  from assms(1)
  have "r\<lparr>r_self_report := Some (score e), r_credit := Some (computeCredit ts (score e) k)\<rparr>
          \<in> ?f ` set (memory_retrievals d)"
    by (rule rev_image_eqI) (simp add: assms(2,3))
  then show ?thesis
    by (simp only: retrievals_rate_memory set_map)
qed

lemma retrievals_rate_memories_other:
  "r \<in> set (memory_retrievals d) \<Longrightarrow> \<forall>x \<in> set es. r_memory_id r \<noteq> memoryId x \<Longrightarrow>
     r \<in> set (memory_retrievals (rate_memories ts k lr tid es d))"
  by (induction es arbitrary: d) (simp_all add: retrievals_rate_other)

lemma rated_once_split:
  assumes "filter (\<lambda>x. memoryId x = i) es = [e]"
  shows "\<exists>pre post. es = pre @ e # post \<and> memoryId e = i
           \<and> (\<forall>x \<in> set pre. memoryId x \<noteq> i) \<and> (\<forall>x \<in> set post. memoryId x \<noteq> i)"
proof -
  from assms have "\<exists>us vs. es = us @ e # vs \<and> (\<forall>u \<in> set us. \<not> memoryId u = i)
                     \<and> memoryId e = i \<and> [] = filter (\<lambda>x. memoryId x = i) vs"
    by (simp only: filter_eq_Cons_iff)
  then obtain us vs where es: "es = us @ e # vs" and us: "\<forall>u \<in> set us. \<not> memoryId u = i"
    and e: "memoryId e = i" and vs: "[] = filter (\<lambda>x. memoryId x = i) vs"
    by (elim exE conjE)
  from vs have "filter (\<lambda>x. memoryId x = i) vs = []"
    by (rule sym)
  then have "\<forall>x \<in> set vs. memoryId x \<noteq> i"
    by (simp only: filter_empty_conv)
  with es us e show ?thesis
    by (intro exI conjI)
qed

lemma rate_memories_once:
  assumes "filter (\<lambda>x. memoryId x = memoryId e) es = [e]"
  shows "(get_memory d (memoryId e) = Some m \<longrightarrow>
           get_memory (rate_memories ts k lr tid es d) (memoryId e)
             = Some (m\<lparr>m_weight := updateWeight (m_weight m) (computeCredit ts (score e) k) lr\<rparr>))
       \<and> (r \<in> set (memory_retrievals d) \<and> r_memory_id r = memoryId e \<and> r_task_id r = tid \<longrightarrow>
           r\<lparr>r_self_report := Some (score e), r_credit := Some (computeCredit ts (score e) k)\<rparr>
             \<in> set (memory_retrievals (rate_memories ts k lr tid es d)))"
proof -
  from rated_once_split [OF assms] obtain pre post where es: "es = pre @ e # post"
    and pre: "\<forall>x \<in> set pre. memoryId x \<noteq> memoryId e"
    and post: "\<forall>x \<in> set post. memoryId x \<noteq> memoryId e"
    by (elim exE conjE)
  let ?d1 = "rate_memories ts k lr tid pre d"
  let ?d2 = "rate_memory ts k lr tid e ?d1"
  have fin: "rate_memories ts k lr tid es d = rate_memories ts k lr tid post ?d2"
    by (simp add: es rate_memories_append)
  have w: "get_memory (rate_memories ts k lr tid es d) (memoryId e)
             = Some (m\<lparr>m_weight := updateWeight (m_weight m) (computeCredit ts (score e) k) lr\<rparr>)"
    if "get_memory d (memoryId e) = Some m"
  proof -
    from that pre have "get_memory ?d1 (memoryId e) = Some m"
      by (simp add: get_memory_rate_memories_other)
    then have "get_memory ?d2 (memoryId e)
                 = Some (m\<lparr>m_weight := updateWeight (m_weight m) (computeCredit ts (score e) k) lr\<rparr>)"
      by (rule get_memory_rate_same)
    with post show ?thesis
      by (simp add: fin get_memory_rate_memories_other)
  qed
  have q: "r\<lparr>r_self_report := Some (score e), r_credit := Some (computeCredit ts (score e) k)\<rparr>
             \<in> set (memory_retrievals (rate_memories ts k lr tid es d))"
    if "r \<in> set (memory_retrievals d)" "r_memory_id r = memoryId e" "r_task_id r = tid"
  proof -
    from that(1,2) pre have "r \<in> set (memory_retrievals ?d1)"
      by (intro retrievals_rate_memories_other) auto
    then have "r\<lparr>r_self_report := Some (score e), r_credit := Some (computeCredit ts (score e) k)\<rparr>
                 \<in> set (memory_retrievals ?d2)"
      using that(2,3) by (rule retrievals_rate_same)
    then show ?thesis
      unfolding fin using post that(2) by (intro retrievals_rate_memories_other) auto
  qed
  from w q show ?thesis
    by blast
qed

lemma learningRate_init: "learningRate (init s) = learningRate s"
  by (simp add: init_def Let_def)

lemma retrievals_init: "memory_retrievals (db (init s)) = memory_retrievals (db s)"
  by (simp add: init_def Let_def)

lemma updateWeight_spec: "updateWeight w c lr = spec_newWeight lr w c"
  by (simp add: updateWeight_def spec_newWeight_def spec_clamp_def Let_def)

lemma computeCredit_spec: "computeCredit ts sc (real k) = spec_credit ts sc k"
  by (simp add: computeCredit_def spec_credit_def)

lemma rate_memories_snoc:
  "rate_memories ts k lr tid (es @ [e]) d
     = rate_memory ts k lr tid e (rate_memories ts k lr tid es d)"
  by (simp add: rate_memories_append)

lemma get_memory_rate_memory:
  "get_memory (rate_memory ts k lr tid e d) (memoryId e)
     = map_option (\<lambda>m. m\<lparr>m_weight := updateWeight (m_weight m) (computeCredit ts (score e) k) lr\<rparr>)
         (get_memory d (memoryId e))"
proof (cases "get_memory d (memoryId e)")
  case None
  then show ?thesis
    by (simp add: rate_memory_def Let_def get_memory_def)
next
  case (Some m)
  then show ?thesis
    by (simp add: get_memory_rate_same)
qed

lemma get_memory_rate_memories:
  "get_memory (rate_memories ts (real k) lr tid es d) i
     = map_option (\<lambda>m. m\<lparr>m_weight :=
                         spec_rated_weight lr ts k (m_weight m) (filter (\<lambda>x. memoryId x = i) es)\<rparr>)
         (get_memory d i)"
proof (induction es rule: rev_induct)
  case Nil
  show ?case
    by (cases "get_memory d i") (simp_all add: spec_rated_weight_def)
next
  case (snoc e es)
  show ?case
  proof (cases "memoryId e = i")
    case True
    have "get_memory (rate_memories ts (real k) lr tid (es @ [e]) d) (memoryId e)
            = map_option (\<lambda>m. m\<lparr>m_weight := updateWeight (m_weight m)
                                   (computeCredit ts (score e) (real k)) lr\<rparr>)
                (get_memory (rate_memories ts (real k) lr tid es d) (memoryId e))"
      by (simp only: rate_memories_snoc get_memory_rate_memory)
    with True snoc.IH show ?thesis
      by (cases "get_memory d i")
         (simp_all add: spec_rated_weight_def updateWeight_spec computeCredit_spec)
  next
    case False
    with snoc.IH show ?thesis
      by (simp add: rate_memories_snoc get_memory_rate_other)
  qed
qed

lemma spec_rated_row_snoc:
  "(if r_memory_id (spec_rated_row ts k tid es r) = memoryId e
       \<and> r_task_id (spec_rated_row ts k tid es r) = tid
    then (spec_rated_row ts k tid es r)
           \<lparr>r_self_report := Some (score e),
             r_credit := Some (computeCredit ts (score e) (real k))\<rparr>
    else spec_rated_row ts k tid es r)
   = spec_rated_row ts k tid (es @ [e]) r"
  by (auto simp: spec_rated_row_def computeCredit_spec split: option.splits)

lemma retrievals_rate_memories:
  "memory_retrievals (rate_memories ts (real k) lr tid es d)
     = map (spec_rated_row ts k tid es) (memory_retrievals d)"
proof (induction es rule: rev_induct)
  case Nil
  have "spec_rated_row ts k tid [] = (\<lambda>r. r)"
    by (rule ext) (simp add: spec_rated_row_def)
  then show ?case
    by simp
next
  case (snoc e es)
  show ?case
    by (simp only: rate_memories_snoc retrievals_rate_memory snoc.IH map_map o_def
          spec_rated_row_snoc)
qed

lemma endTask_db:
  assumes "selfReport input = Some entries" and "entries \<noteq> []"
  shows "db (snd (endTask taskId input now s))
         = rate_memories (endTask_score s input) (real (length entries)) (learningRate s)
             taskId entries
             ((db (init s))\<lparr>tasks := map (finish_task taskId input (endTask_score s input) now)
                                       (tasks (db (init s))),
                meta := (meta (db (init s)))(''baseline'' \<mapsto>
                   updateBaseline (baseline (init s)) (tokensUsed input) (errors input)
                     (userCorrections input))\<rparr>)"
  using assms by (simp add: endTask_def Let_def learningRate_init endTask_score_def)

text \<open>
  C3, as stated, fails when an entry list rates a memory twice: the memory
  \<open>fresh\<close>, of weight 0.1, is rated 3 and then 0 in a list of two entries, the task
  score being 1. The loop updates the weight once per entry, to 0.14 and then to
  0.126, where the formula of the claim gives 0.14 for the score 3 and 0.1 for the
  score 0.
\<close>

theorem endTask_rates_twice:
  "get_memory (db (snd (endTask ''t1'' ex_dup_input 0 ex_rated_store))) ''fresh''
     = Some (ex_row ''fresh'' 0.126 0)
   \<and> endTask_score ex_rated_store ex_dup_input = 1
   \<and> spec_newWeight 0.1 0.1 (spec_credit 1 3 2) = 0.14
   \<and> spec_newWeight 0.1 0.1 (spec_credit 1 0 2) = 0.1"
  by (simp add: ex_defs endTask_def endTask_score_def init_def Let_def repair_row_def
        computeTaskScore_def rate_memory_def get_memory_def computeCredit_def
        updateWeight_def spec_newWeight_def spec_clamp_def spec_credit_def)

text \<open>
  C3, amended: in an \<open>endTask\<close> call whose \<open>selfReport\<close> is the non-empty list
  \<open>entries\<close>, of \<open>k\<close> entries, the weight of every memory is updated once for each
  entry that rates it, in the order of the list, each time to
  \<open>clamp((1 - alpha) * w + alpha * credit, 0.1, 5.0)\<close> of the weight \<open>w\<close> it then has,
  with \<open>credit = taskScore * (s/3) * (1/max(k,1))\<close> for the score \<open>s\<close> of that entry;
  nothing else of a memory row changes, and no row appears or disappears. So a memory
  rated by exactly one entry, with score \<open>s\<close> and old weight \<open>w\<close>, receives the weight
  of the claim. Every \<open>memory_retrievals\<close> row of this task whose memory is rated gets
  \<open>self_report\<close> and \<open>credit\<close> of the last entry that rates it (of the entry, when
  there is one), and every other row is left as it is. \<open>taskScore\<close> is the score of
  the task against the baseline in force and \<open>alpha\<close> the store's learning rate: the
  configured one, 0.1 when the configuration gives none.
\<close>

theorem endTask_credit_assignment:
  assumes "selfReport input = Some entries" and "entries \<noteq> []"
  shows "get_memory (db (snd (endTask taskId input now s))) i
           = map_option
               (\<lambda>m. m\<lparr>m_weight :=
                   spec_rated_weight (learningRate s) (endTask_score s input) (length entries)
                     (m_weight m) (filter (\<lambda>x. memoryId x = i) entries)\<rparr>)
               (get_memory (db (init s)) i)
       \<and> (filter (\<lambda>x. memoryId x = memoryId e) entries = [e]
            \<and> get_memory (db (init s)) (memoryId e) = Some m \<longrightarrow>
            get_memory (db (snd (endTask taskId input now s))) (memoryId e)
              = Some (m\<lparr>m_weight :=
                   spec_newWeight (learningRate s) (m_weight m)
                     (spec_credit (endTask_score s input) (score e) (length entries))\<rparr>))
       \<and> memory_retrievals (db (snd (endTask taskId input now s)))
           = map (spec_rated_row (endTask_score s input) (length entries) taskId entries)
               (memory_retrievals (db s))
       \<and> (filter (\<lambda>x. memoryId x = memoryId e) entries = [e]
            \<and> r \<in> set (memory_retrievals (db s)) \<and> r_memory_id r = memoryId e
            \<and> r_task_id r = taskId \<longrightarrow>
            r\<lparr>r_self_report := Some (score e),
              r_credit := Some (spec_credit (endTask_score s input) (score e) (length entries))\<rparr>
              \<in> set (memory_retrievals (db (snd (endTask taskId input now s)))))
       \<and> learningRate (new_MemoryStore config dbFile)
           = (case cfg_learningRate config of None \<Rightarrow> 0.1 | Some a \<Rightarrow> a)"
proof -
  let ?ts = "endTask_score s input"
  let ?k = "length entries"
  let ?d2 = "(db (init s))\<lparr>tasks := map (finish_task taskId input ?ts now) (tasks (db (init s))),
                meta := (meta (db (init s)))(''baseline'' \<mapsto>
                   updateBaseline (baseline (init s)) (tokensUsed input) (errors input)
                     (userCorrections input))\<rparr>"
  have d: "db (snd (endTask taskId input now s))
             = rate_memories ?ts (real ?k) (learningRate s) taskId entries ?d2"
    using assms by (rule endTask_db)
  have g: "get_memory ?d2 j = get_memory (db (init s)) j" for j
    by (simp add: get_memory_def)
  have q: "memory_retrievals ?d2 = memory_retrievals (db s)"
    by (simp add: retrievals_init)
  have A: "get_memory (db (snd (endTask taskId input now s))) i
           = map_option
               (\<lambda>m. m\<lparr>m_weight :=
                   spec_rated_weight (learningRate s) ?ts ?k
                     (m_weight m) (filter (\<lambda>x. memoryId x = i) entries)\<rparr>)
               (get_memory (db (init s)) i)"
    by (simp only: d get_memory_rate_memories g)
  have C: "memory_retrievals (db (snd (endTask taskId input now s)))
           = map (spec_rated_row ?ts ?k taskId entries) (memory_retrievals (db s))"
    by (simp only: d retrievals_rate_memories q)
  have B: "get_memory (db (snd (endTask taskId input now s))) (memoryId e)
              = Some (m\<lparr>m_weight :=
                   spec_newWeight (learningRate s) (m_weight m)
                     (spec_credit ?ts (score e) ?k)\<rparr>)"
    if "filter (\<lambda>x. memoryId x = memoryId e) entries = [e]"
      and "get_memory (db (init s)) (memoryId e) = Some m"
  proof -
    from that(2) have "get_memory ?d2 (memoryId e) = Some m"
      by (simp only: g)
    with rate_memories_once [OF that(1), where d = ?d2 and m = m and ts = ?ts
        and k = "real ?k" and lr = "learningRate s" and tid = taskId]
    show ?thesis
      by (simp only: d computeCredit_spec updateWeight_spec)
  qed
  have C': "r\<lparr>r_self_report := Some (score e), r_credit := Some (spec_credit ?ts (score e) ?k)\<rparr>
              \<in> set (memory_retrievals (db (snd (endTask taskId input now s))))"
    if "filter (\<lambda>x. memoryId x = memoryId e) entries = [e]"
      and "r \<in> set (memory_retrievals (db s))" and "r_memory_id r = memoryId e"
      and "r_task_id r = taskId"
  proof -
    from that(2) have "r \<in> set (memory_retrievals ?d2)"
      by (simp only: q)
    with that(3,4) rate_memories_once [OF that(1), where d = ?d2 and r = r and ts = ?ts
        and k = "real ?k" and lr = "learningRate s" and tid = taskId]
    show ?thesis
      by (simp only: d computeCredit_spec)
  qed
  have D: "learningRate (new_MemoryStore config dbFile)
           = (case cfg_learningRate config of None \<Rightarrow> 0.1 | Some a \<Rightarrow> a)"
    by (simp add: new_MemoryStore_def)
  from A B C C' D show ?thesis
    by blast
qed

theorem endTask_credit_assignment_witness:
  "selfReport ex_rated_input
     = Some [\<lparr> memoryId = ''fresh'', score = 3 \<rparr>, \<lparr> memoryId = ''tried'', score = 0 \<rparr>]
   \<and> get_memory (db (init ex_rated_store)) ''fresh'' = Some (ex_row ''fresh'' 0.1 0)
   \<and> get_memory (db (snd (endTask ''t1'' ex_rated_input 0 ex_rated_store))) ''fresh''
       = Some (ex_row ''fresh'' 0.14 0)
   \<and> ex_retrieval \<in> set (memory_retrievals (db ex_rated_store))
   \<and> ex_retrieval\<lparr>r_self_report := Some 3, r_credit := Some 0.5\<rparr>
       \<in> set (memory_retrievals (db (snd (endTask ''t1'' ex_rated_input 0 ex_rated_store))))"
proof -
  let ?e = "\<lparr> memoryId = ''fresh'', score = 3 \<rparr>"
  let ?es = "[?e, \<lparr> memoryId = ''tried'', score = 0 \<rparr>]"
  have a: "selfReport ex_rated_input = Some ?es"
    by (simp add: ex_rated_input_def)
  have n: "?es \<noteq> []"
    by simp
  have b: "filter (\<lambda>x. memoryId x = memoryId ?e) ?es = [?e]"
    by simp
  have g: "get_memory (db (init ex_rated_store)) ''fresh'' = Some (ex_row ''fresh'' 0.1 0)"
    by (simp add: ex_defs init_def Let_def repair_row_def get_memory_def)
  have r: "ex_retrieval \<in> set (memory_retrievals (db ex_rated_store))"
    by (simp add: ex_defs)
  have k: "r_memory_id ex_retrieval = ''fresh''" "r_task_id ex_retrieval = ''t1''"
    by (simp_all add: ex_retrieval_def)
  have t: "endTask_score ex_rated_store ex_rated_input = 1"
    by (simp add: ex_defs init_def Let_def computeTaskScore_def endTask_score_def)
  have l: "learningRate ex_rated_store = 0.1"
    by (simp add: ex_defs)
  note th = endTask_credit_assignment
         [OF a n, where s = ex_rated_store and m = "ex_row ''fresh'' 0.1 0" and taskId = "''t1''"
            and now = 0 and r = ex_retrieval and config = ex_config and e = ?e
            and i = "''fresh''" and dbFile = "empty_database :: real database"]
  have w: "get_memory (db (snd (endTask ''t1'' ex_rated_input 0 ex_rated_store))) ''fresh''
             = Some (ex_row ''fresh'' 0.14 0)"
    using th [THEN conjunct2, THEN conjunct1] b g
    by (simp add: t l ex_row_def spec_credit_def spec_newWeight_def spec_clamp_def)
  have q: "ex_retrieval\<lparr>r_self_report := Some 3, r_credit := Some 0.5\<rparr>
       \<in> set (memory_retrievals (db (snd (endTask ''t1'' ex_rated_input 0 ex_rated_store))))"
    using th [THEN conjunct2, THEN conjunct2, THEN conjunct2, THEN conjunct1] b r k
    by (simp add: t spec_credit_def)
  from a g w r q show ?thesis
    by (intro conjI)
qed

subsection \<open>The repair of embeddings in init\<close>

lemma length_f32_bytes: "length (f32_bytes w) = 4"
  by (simp add: f32_bytes_def)

lemma length_vecBuf: "length (vecBuf v) = 4 * length v"
  by (induction v) (simp_all add: vecBuf_def length_f32_bytes)

text \<open>
  C4: a store configured with \<open>dimensions = 8\<close> holds a memory whose embedding has
  \<open>8 * 4\<close> bytes, the full length for that configuration. \<open>init\<close> sets it to NULL:
  the migration compares with the constant 1536 and never reads \<open>dimensions\<close>.
\<close>

theorem init_nulls_full_length_embedding:
  "cfg_dimensions ex_config = Some 8
   \<and> length (vecBuf ex_vec8) = 8 * 4
   \<and> map m_embedding (memories (db ex_dim8_store)) = [Some (vecBuf ex_vec8)]
   \<and> map m_embedding (memories (db (init ex_dim8_store))) = [None]"
proof -
  have l: "length (vecBuf ex_vec8) = 32"
    by (simp add: length_vecBuf ex_vec8_def)
  show ?thesis
    by (simp add: l ex_defs init_def Let_def repair_row_def)
qed

subsection \<open>startTask\<close>

lemma tasks_write_embeddings: "tasks (write_embeddings es d) = tasks d"
  by (induction es d rule: write_embeddings.induct) (simp_all add: set_embedding_def)

lemma tasks_embedPending: "tasks (db (snd (embedPending s))) = tasks (db s)"
  by (simp add: embedPending_def Let_def tasks_init tasks_write_embeddings split: sum.splits)

lemma tasks_record_retrievals: "tasks (record_retrievals tid now mems d) = tasks d"
  by (induction mems arbitrary: d) (simp_all add: record_retrieval_def)

lemma id_embedding_record_retrievals:
  "map (\<lambda>m. (m_id m, m_embedding m)) (memories (record_retrievals tid now mems d))
     = map (\<lambda>m. (m_id m, m_embedding m)) (memories d)"
proof (induction mems arbitrary: d)
  case Nil
  then show ?case by simp
next
  case (Cons M mems)
  have "map (\<lambda>m. (m_id m, m_embedding m)) (memories (record_retrieval tid now M d))
          = map (\<lambda>m. (m_id m, m_embedding m)) (memories d)"
    by (simp add: record_retrieval_def)
  with Cons.IH [of "record_retrieval tid now M d"] show ?case
    by simp
qed

lemma select_embedded_rows:
  "select_embedded vdc vt q ms = Some rows \<Longrightarrow>
     \<forall>p \<in> set rows. fst p \<in> set ms \<and> m_embedding (fst p) \<noteq> None"
proof (induction ms arbitrary: rows)
  case Nil
  then show ?case by simp
next
  case (Cons m ms)
  show ?case
  proof (cases "m_embedding m")
    case None
    with Cons show ?thesis by auto
  next
    case (Some e)
    with Cons.prems obtain dv rows' where "vdc vt e q = Some dv"
      and r: "select_embedded vdc vt q ms = Some rows'" and rows: "rows = (m, dv) # rows'"
      by (auto split: option.splits)
    from Cons.IH [OF r] rows Some show ?thesis
      by auto
  qed
qed

lemma select_rows_rows:
  "select_rows vdc vt q k ms = Some rows \<Longrightarrow>
     \<forall>p \<in> set rows. fst p \<in> set ms \<and> m_embedding (fst p) \<noteq> None"
  by (cases "k = 0") (simp_all add: select_rows_def select_embedded_rows)

lemma set_limit: "set (limit k xs) \<subseteq> set xs"
  by (auto simp: limit_def dest: in_set_takeD)

lemma config_embedPending:
  "vectorType (snd (embedPending s)) = vectorType s \<and> topK (snd (embedPending s)) = topK s"
  by (simp add: embedPending_def Let_def init_def split: sum.splits)

lemma config_init: "vectorType (init s) = vectorType s \<and> topK (init s) = topK s"
  by (simp add: init_def Let_def)

lemma startTask_success:
  assumes "embed s description = Inr v"
      and "embedPending (init s) = (Inr n, s2)"
      and "taskId \<notin> set (map t_id (tasks (db s)))"
      and "select_rows vdc (vectorType s2) (vecBuf v) (topK s2) (memories (db s2)) = Some rows"
      and "mems = map to_Memory (limit (topK s2) (sort_key (\<lambda>p. - rank (decayRate s2) now p) rows))"
  shows "startTask vdc description taskId now s
           = (Inr (taskId, mems),
              s2\<lparr> db := record_retrievals taskId now mems
                          ((db s2)\<lparr>tasks := tasks (db s2) @
                             [\<lparr> t_id = taskId, t_description = description,
                                t_embedding = vecBuf v,
                                t_tokens_used = None, t_tool_calls = None, t_errors = None,
                                t_user_corrections = None, t_completed = None,
                                t_task_score = None, t_started_at = now,
                                t_finished_at = None \<rparr>]\<rparr>),
                  currentTaskId := Some taskId \<rparr>)"
proof -
  from assms(2) have "tasks (db s2) = tasks (db (snd (embedPending (init s))))"
    by simp
  then have t: "tasks (db s2) = tasks (db s)"
    by (simp only: tasks_embedPending tasks_init)
  from assms(1) have e: "embed (init s) description = Inr v"
    by (simp add: embed_init)
  show ?thesis
    using assms(2,3,4,5) e t
    by (simp add: startTask_def Let_def insert_task_def)
qed

lemma startTask_engine_error:
  assumes "embed s description = Inr v"
      and "embedPending (init s) = (Inr n, s2)"
      and "taskId \<notin> set (map t_id (tasks (db s)))"
      and "select_rows vdc (vectorType s2) (vecBuf v) (topK s2) (memories (db s2)) = None"
  shows "startTask vdc description taskId now s
           = (Inl EngineError,
              s2\<lparr> db := (db s2)\<lparr>tasks := tasks (db s2) @
                             [\<lparr> t_id = taskId, t_description = description,
                                t_embedding = vecBuf v,
                                t_tokens_used = None, t_tool_calls = None, t_errors = None,
                                t_user_corrections = None, t_completed = None,
                                t_task_score = None, t_started_at = now,
                                t_finished_at = None \<rparr>]\<rparr> \<rparr>)"
proof -
  from assms(2) have "tasks (db s2) = tasks (db (snd (embedPending (init s))))"
    by simp
  then have t: "tasks (db s2) = tasks (db s)"
    by (simp only: tasks_embedPending tasks_init)
  from assms(1) have e: "embed (init s) description = Inr v"
    by (simp add: embed_init)
  show ?thesis
    using assms(2,3,4) e t
    by (simp add: startTask_def Let_def insert_task_def)
qed

text \<open>
  C5, as stated, fails: with \<open>dimensions = 8\<close> configured and an embedder that returns
  four elements, \<open>startTask\<close> on the empty store returns \<open>(taskId, [])\<close> and the task
  row is in \<open>tasks\<close>, even with an engine that rejects every distance computation.
\<close>

theorem startTask_wrong_dimension_accepted:
  "cfg_dimensions ex_config = Some 8
   \<and> embed ex_empty_store ''fix auth'' = Inr [0, 0, 0, 0]
   \<and> fst (startTask ex_rejecting_engine ''fix auth'' ''t1'' 0 ex_empty_store) = Inr (''t1'', [])
   \<and> map t_id (tasks (db (snd (startTask ex_rejecting_engine ''fix auth'' ''t1'' 0 ex_empty_store))))
        = [''t1'']"
  by (simp add: ex_defs startTask_def embedPending_def init_def Let_def insert_task_def limit_def select_rows_def)

text \<open>
  C5, amended: \<open>startTask\<close> compares the embedder's vector with no configured
  dimension. Whatever the length of the vector \<open>v\<close> the embedder returns for the
  description, if the pending memories embed and the task id is new, the task row is
  inserted and persists, its embedding the \<open>4 * length v\<close> bytes of \<open>v\<close>;
  \<open>startTask\<close> then succeeds if the engine computes every distance the retrieval
  query asks for, and fails with the engine's error otherwise, the task row staying in
  the table.
\<close>

theorem startTask_no_dimension_check:
  assumes "embed s description = Inr v"
      and "fst (embedPending (init s)) = Inr n"
      and "taskId \<notin> set (map t_id (tasks (db s)))"
  shows "(\<exists>t \<in> set (tasks (db (snd (startTask vdc description taskId now s)))).
             t_id t = taskId \<and> t_embedding t = vecBuf v \<and> length (t_embedding t) = 4 * length v)
       \<and> (select_rows vdc (vectorType s) (vecBuf v) (topK s)
              (memories (db (snd (embedPending (init s))))) \<noteq> None \<longrightarrow>
            (\<exists>mems. fst (startTask vdc description taskId now s) = Inr (taskId, mems)))
       \<and> (select_rows vdc (vectorType s) (vecBuf v) (topK s)
              (memories (db (snd (embedPending (init s))))) = None \<longrightarrow>
            fst (startTask vdc description taskId now s) = Inl EngineError)"
proof -
  obtain s2 where p: "embedPending (init s) = (Inr n, s2)"
    using assms(2) by (cases "embedPending (init s)") simp
  then have s2: "s2 = snd (embedPending (init s))"
    by simp
  have c: "vectorType s2 = vectorType s" "topK s2 = topK s"
    by (simp_all only: s2 config_embedPending config_init)
  show ?thesis
  proof (cases "select_rows vdc (vectorType s2) (vecBuf v) (topK s2) (memories (db s2))")
    case None
    note st = startTask_engine_error [OF assms(1) p assms(3) None, of now]
    from None have "select_rows vdc (vectorType s) (vecBuf v) (topK s)
                      (memories (db (snd (embedPending (init s))))) = None"
      by (simp only: c s2 [symmetric])
    then show ?thesis
      by (simp add: st length_vecBuf)
  next
    case (Some rows)
    note st = startTask_success [OF assms(1) p assms(3) Some refl, of now]
    from Some have "select_rows vdc (vectorType s) (vecBuf v) (topK s)
                      (memories (db (snd (embedPending (init s))))) = Some rows"
      by (simp only: c s2 [symmetric])
    then show ?thesis
      by (simp add: st tasks_record_retrievals length_vecBuf)
  qed
qed

theorem startTask_no_dimension_check_witness:
  "embed ex_empty_store ''hello'' = Inr [0, 0, 0, 0]
   \<and> fst (embedPending (init ex_empty_store)) = Inr 0
   \<and> ''t1'' \<notin> set (map t_id (tasks (db ex_empty_store)))
   \<and> select_rows ex_rejecting_engine (vectorType ex_empty_store) (vecBuf [0, 0, 0, 0])
        (topK ex_empty_store) (memories (db (snd (embedPending (init ex_empty_store))))) \<noteq> None
   \<and> (\<exists>mems. fst (startTask ex_rejecting_engine ''hello'' ''t1'' 0 ex_empty_store)
                = Inr (''t1'', mems))
   \<and> (\<exists>t \<in> set (tasks (db (snd (startTask ex_rejecting_engine ''hello'' ''t1'' 0 ex_empty_store)))).
         t_id t = ''t1'' \<and> t_embedding t = vecBuf [0, 0, 0, 0] \<and> length (t_embedding t) = 16)
   \<and> embed ex_pending_store ''hello'' = Inr [0, 0, 0, 0]
   \<and> fst (embedPending (init ex_pending_store)) = Inr 1
   \<and> ''t1'' \<notin> set (map t_id (tasks (db ex_pending_store)))
   \<and> select_rows ex_rejecting_engine (vectorType ex_pending_store) (vecBuf [0, 0, 0, 0])
        (topK ex_pending_store) (memories (db (snd (embedPending (init ex_pending_store))))) = None
   \<and> fst (startTask ex_rejecting_engine ''hello'' ''t1'' 0 ex_pending_store) = Inl EngineError
   \<and> (\<exists>t \<in> set (tasks (db (snd (startTask ex_rejecting_engine ''hello'' ''t1'' 0 ex_pending_store)))).
         t_id t = ''t1'' \<and> t_embedding t = vecBuf [0, 0, 0, 0] \<and> length (t_embedding t) = 16)"
proof -
  have a: "embed ex_empty_store ''hello'' = Inr [0, 0, 0, 0]"
    "embed ex_pending_store ''hello'' = Inr [0, 0, 0, 0]"
    by (simp_all add: ex_defs)
  have b: "fst (embedPending (init ex_empty_store)) = Inr 0"
    "fst (embedPending (init ex_pending_store)) = Inr 1"
    by (simp_all add: ex_defs embedPending_def init_def Let_def repair_row_def)
  have c: "''t1'' \<notin> set (map t_id (tasks (db ex_empty_store)))"
    "''t1'' \<notin> set (map t_id (tasks (db ex_pending_store)))"
    by (simp_all add: ex_defs)
  have d: "select_rows ex_rejecting_engine (vectorType ex_empty_store) (vecBuf [0, 0, 0, 0])
        (topK ex_empty_store) (memories (db (snd (embedPending (init ex_empty_store))))) \<noteq> None"
    by (simp add: ex_defs embedPending_def init_def Let_def select_rows_def)
  have e: "select_rows ex_rejecting_engine (vectorType ex_pending_store) (vecBuf [0, 0, 0, 0])
        (topK ex_pending_store) (memories (db (snd (embedPending (init ex_pending_store))))) = None"
    by (simp add: ex_defs embedPending_def init_def Let_def repair_row_def set_embedding_def
        select_rows_def)
  from startTask_no_dimension_check [OF a(1) b(1) c(1), of ex_rejecting_engine 0] d
  have f: "(\<exists>mems. fst (startTask ex_rejecting_engine ''hello'' ''t1'' 0 ex_empty_store)
                = Inr (''t1'', mems))
   \<and> (\<exists>t \<in> set (tasks (db (snd (startTask ex_rejecting_engine ''hello'' ''t1'' 0 ex_empty_store)))).
         t_id t = ''t1'' \<and> t_embedding t = vecBuf [0, 0, 0, 0] \<and> length (t_embedding t) = 16)"
    by simp
  from startTask_no_dimension_check [OF a(2) b(2) c(2), of ex_rejecting_engine 0] e
  have g: "fst (startTask ex_rejecting_engine ''hello'' ''t1'' 0 ex_pending_store) = Inl EngineError
   \<and> (\<exists>t \<in> set (tasks (db (snd (startTask ex_rejecting_engine ''hello'' ''t1'' 0 ex_pending_store)))).
         t_id t = ''t1'' \<and> t_embedding t = vecBuf [0, 0, 0, 0] \<and> length (t_embedding t) = 16)"
    by simp
  from a b c d e f g show ?thesis
    by (intro conjI) simp_all
qed

text \<open>
  C8, as stated, fails on its second half: the store holds one memory, whose embedding
  is NULL, and no memory with an embedding; \<open>startTask\<close> embeds the pending memory
  first and returns it.
\<close>

theorem startTask_returns_pending_memory:
  "map m_embedding (memories (db ex_pending_store)) = [None]
   \<and> fst (startTask ex_engine ''hello'' ''t1'' 0 ex_pending_store)
       = Inr (''t1'', [ex_pending_memory])"
  by (simp add: ex_defs startTask_def embedPending_def init_def
        Let_def insert_task_def limit_def select_rows_def repair_row_def set_embedding_def to_Memory_def)


text \<open>
  C8, amended: every memory returned by \<open>startTask\<close> has a non-NULL embedding in the
  store that \<open>startTask\<close> leaves (it first embeds every pending memory, so a memory
  that was pending before the call can be returned); and when the \<open>memories\<close> table is
  empty, \<open>startTask\<close> returns \<open>(taskId, [])\<close> and still inserts the task row.
\<close>

theorem startTask_retrieval:
  "(startTask vdc description taskId now s = (Inr (tid, mems), s') \<longrightarrow>
      (\<forall>M \<in> set mems. \<exists>m \<in> set (memories (db s')).
          m_id m = Memory_id M \<and> m_embedding m \<noteq> None))
 \<and> (memories (db s) = [] \<and> embed s description = Inr v
       \<and> taskId \<notin> set (map t_id (tasks (db s))) \<longrightarrow>
      fst (startTask vdc description taskId now s) = Inr (taskId, [])
      \<and> taskId \<in> set (map t_id (tasks (db (snd (startTask vdc description taskId now s))))))"
proof (intro conjI impI)
  assume a: "startTask vdc description taskId now s = (Inr (tid, mems), s')"
  then obtain v where e: "embed (init s) description = Inr v"
    by (cases "embed (init s) description") (simp_all add: startTask_def Let_def)
  from a e obtain n s2 where p: "embedPending (init s) = (Inr n, s2)"
    by (cases "embedPending (init s)"; cases "fst (embedPending (init s))")
       (simp_all add: startTask_def Let_def)
  from a e p have f: "taskId \<notin> set (map t_id (tasks (db s2)))"
    by (auto simp: startTask_def Let_def insert_task_def split: if_splits)
  from p have "tasks (db s2) = tasks (db (snd (embedPending (init s))))"
    by simp
  then have t: "tasks (db s2) = tasks (db s)"
    by (simp only: tasks_embedPending tasks_init)
  from a e p f obtain rows
    where r: "select_rows vdc (vectorType s2) (vecBuf v) (topK s2) (memories (db s2)) = Some rows"
    by (cases "select_rows vdc (vectorType s2) (vecBuf v) (topK s2) (memories (db s2))")
       (simp_all add: startTask_def Let_def insert_task_def)
  from e have e': "embed s description = Inr v"
    by (simp add: embed_init)
  from f t have f': "taskId \<notin> set (map t_id (tasks (db s)))"
    by simp
  note st = startTask_success [OF e' p f' r refl, of now]
  from a st
  have mems: "mems = map to_Memory
                       (limit (topK s2) (sort_key (\<lambda>p. - rank (decayRate s2) now p) rows))"
    and s': "map (\<lambda>m. (m_id m, m_embedding m)) (memories (db s'))
               = map (\<lambda>m. (m_id m, m_embedding m)) (memories (db s2))"
    by (auto simp: id_embedding_record_retrievals)
  show "\<forall>M \<in> set mems. \<exists>m \<in> set (memories (db s')). m_id m = Memory_id M \<and> m_embedding m \<noteq> None"
  proof
    fix M assume "M \<in> set mems"
    then obtain p where pr: "p \<in> set rows" and M: "M = to_Memory p"
      using set_limit [of "topK s2" "sort_key (\<lambda>p. - rank (decayRate s2) now p) rows"]
      by (auto simp: mems)
    from select_rows_rows [OF r] pr
    have "fst p \<in> set (memories (db s2))" and ne: "m_embedding (fst p) \<noteq> None"
      by simp_all
    then have "(m_id (fst p), m_embedding (fst p))
                 \<in> set (map (\<lambda>m. (m_id m, m_embedding m)) (memories (db s2)))"
      by (simp add: rev_image_eqI)
    then have "(m_id (fst p), m_embedding (fst p))
                 \<in> set (map (\<lambda>m. (m_id m, m_embedding m)) (memories (db s')))"
      by (simp only: s')
    then obtain m where "m \<in> set (memories (db s'))" "m_id m = m_id (fst p)"
      "m_embedding m = m_embedding (fst p)"
      by auto
    moreover have "Memory_id M = m_id (fst p)"
      by (simp add: M to_Memory_def split: prod.splits)
    ultimately show "\<exists>m \<in> set (memories (db s')). m_id m = Memory_id M \<and> m_embedding m \<noteq> None"
      using ne by auto
  qed
next
  assume a: "memories (db s) = [] \<and> embed s description = Inr v
       \<and> taskId \<notin> set (map t_id (tasks (db s)))"
  then have m: "memories (db (init s)) = []"
    by (simp add: init_def Let_def)
  then have p: "embedPending (init s) = (Inr 0, init s)"
    by (simp add: embedPending_def Let_def init_initialized init_id)
  have r: "select_rows vdc (vectorType (init s)) (vecBuf v) (topK (init s))
             (memories (db (init s))) = Some []"
    by (simp add: m select_rows_def)
  from a have e: "embed s description = Inr v" and f: "taskId \<notin> set (map t_id (tasks (db s)))"
    by simp_all
  note st = startTask_success [OF e p f r refl, of now]
  show "fst (startTask vdc description taskId now s) = Inr (taskId, [])"
    by (simp add: st limit_def)
  show "taskId \<in> set (map t_id (tasks (db (snd (startTask vdc description taskId now s)))))"
    by (simp add: st tasks_record_retrievals)
qed

theorem startTask_retrieval_witness:
  "startTask ex_engine ''hello'' ''t1'' 0 ex_pending_store
     = (Inr (''t1'', [ex_pending_memory]), snd (startTask ex_engine ''hello'' ''t1'' 0 ex_pending_store))
   \<and> (\<exists>m \<in> set (memories (db (snd (startTask ex_engine ''hello'' ''t1'' 0 ex_pending_store)))).
         m_id m = ''p1'' \<and> m_embedding m \<noteq> None)
   \<and> memories (db ex_empty_store) = []
   \<and> embed ex_empty_store ''hello'' = Inr [0, 0, 0, 0]
   \<and> ''t1'' \<notin> set (map t_id (tasks (db ex_empty_store)))
   \<and> fst (startTask ex_engine ''hello'' ''t1'' 0 ex_empty_store) = Inr (''t1'', [])
   \<and> ''t1'' \<in> set (map t_id (tasks (db (snd (startTask ex_engine ''hello'' ''t1'' 0 ex_empty_store)))))"
proof -
  have "fst (startTask ex_engine ''hello'' ''t1'' 0 ex_pending_store) = Inr (''t1'', [ex_pending_memory])"
    by (simp add: ex_defs startTask_def embedPending_def init_def
        Let_def insert_task_def limit_def repair_row_def set_embedding_def to_Memory_def
        select_rows_def)
  then have a: "startTask ex_engine ''hello'' ''t1'' 0 ex_pending_store
     = (Inr (''t1'', [ex_pending_memory]), snd (startTask ex_engine ''hello'' ''t1'' 0 ex_pending_store))"
    by (simp add: prod_eq_iff)
  have i: "Memory_id ex_pending_memory = ''p1''"
    by (simp add: ex_pending_memory_def)
  have b: "memories (db ex_empty_store) = []"
    "embed ex_empty_store ''hello'' = Inr [0, 0, 0, 0]"
    "''t1'' \<notin> set (map t_id (tasks (db ex_empty_store)))"
    by (simp_all add: ex_defs)
  from startTask_retrieval
         [of ex_engine "''hello''" "''t1''" 0 ex_pending_store "''t1''" "[ex_pending_memory]"
             "snd (startTask ex_engine ''hello'' ''t1'' 0 ex_pending_store)"]
    a i
  have c: "\<exists>m \<in> set (memories (db (snd (startTask ex_engine ''hello'' ''t1'' 0 ex_pending_store)))).
         m_id m = ''p1'' \<and> m_embedding m \<noteq> None"
    by simp
  from startTask_retrieval
         [of ex_engine "''hello''" "''t1''" 0 ex_empty_store _ _ _ "[0, 0, 0, 0]"] b
  have d: "fst (startTask ex_engine ''hello'' ''t1'' 0 ex_empty_store) = Inr (''t1'', [])
   \<and> ''t1'' \<in> set (map t_id (tasks (db (snd (startTask ex_engine ''hello'' ''t1'' 0 ex_empty_store)))))"
    by blast
  from a b c d show ?thesis
    by (intro conjI) simp_all
qed

end
